theory Spec2Isabelle
  imports Complex_Main
begin

chapter \<open>A shallow embedding of the porous-media flow framework\<close>

text \<open>
  The sources are C++ templates over a grid and property system. The embedding keeps
  the classes as records, the methods as functions named \<open>Class_method\<close>, and the
  template parameters (fluid system, flash solver, material law, problem, element
  context) as records of functions that the modelled method receives.

  \<^item> \<open>Scalar\<close> (C++ \<open>double\<close>) is read as a real number. No property below
    rests on rounding or on the value of a quotient whose divisor is zero: each one
    says which expression is stored where.
  \<^item> An index that the source uses only to count or to select is a natural number;
    the indices \<open>dofIdx\<close>, \<open>spaceIdx\<close> and \<open>timeIdx\<close>, which are handed on, are
    integers.
  \<^item> A \<open>FieldVector\<close> is a list of scalars, a \<open>FieldMatrix\<close> a list of rows.
  \<^item> A data member \<open>name_\<close> of the source is the record field \<open>name\<close>.
  \<^item> A C++ exception is the left summand of a sum type.
  \<^item> Storage that the source leaves uninitialised is an explicit argument holding
    its indeterminate content.
\<close>

type_synonym Scalar = real
type_synonym FieldVector = "Scalar list"
type_synonym FieldMatrix = "Scalar list list"

datatype error = logic_error string

definition setEntry :: "FieldMatrix \<Rightarrow> nat \<Rightarrow> nat \<Rightarrow> Scalar \<Rightarrow> FieldMatrix" where
  \<comment> \<open>\<open>M[i][j] = v\<close>\<close>
  "setEntry M i j v = M[i := (M ! i)[j := v]]"

definition zeroMatrix :: "nat \<Rightarrow> FieldMatrix" where
  \<comment> \<open>\<open>M = 0.\<close> on a \<open>FieldMatrix<DT,dim,dim>\<close>: every entry becomes zero\<close>
  "zeroMatrix n = replicate n (replicate n 0)"


section \<open>test/twophase/injectionproblem.hh\<close>

subsection \<open>InjectionProblem\<close>

text \<open>
  The members \<open>innerLowerLeft_\<close> and \<open>innerUpperRight_\<close> are never written nor
  read by the class and are left out. The constructor assigns only the first two
  components of \<open>gravity_\<close>; its argument \<open>uninit\<close> is the indeterminate content the
  vector has before.
\<close>

record InjectionProblem =
  outerLowerLeft :: FieldVector
  outerUpperRight :: FieldVector
  width :: Scalar
  height :: Scalar
  depthBOR :: Scalar
  eps :: Scalar
  gravity :: FieldVector

definition InjectionProblem_m :: nat where
  \<comment> \<open>\<open>enum {dim=G::dimension, m=2}\<close>\<close>
  "InjectionProblem_m = 2"

definition pWIdx :: nat where
  "pWIdx = 0"

definition switchIdx :: nat where
  "switchIdx = 1"

definition InjectionProblem_ctor ::
  "FieldVector \<Rightarrow> FieldVector \<Rightarrow> FieldVector \<Rightarrow> Scalar \<Rightarrow> InjectionProblem" where
  "InjectionProblem_ctor uninit outerLowerLeft0 outerUpperRight0 depthBOR0 =
     \<lparr> outerLowerLeft = outerLowerLeft0,
       outerUpperRight = outerUpperRight0,
       width = outerUpperRight0 ! 0 - outerLowerLeft0 ! 0,
       height = outerUpperRight0 ! 1 - outerLowerLeft0 ! 1,
       depthBOR = depthBOR0,
       eps = 1 / 10 ^ 8 * outerUpperRight0 ! 0,
       gravity = (uninit[0 := 0])[1 := - 9.81] \<rparr>"

definition InjectionProblem_g ::
  "InjectionProblem \<Rightarrow> FieldVector \<Rightarrow> 'e \<Rightarrow> 'i \<Rightarrow> FieldVector \<Rightarrow> FieldVector" where
  \<comment> \<open>the Dirichlet values; \<open>FieldVector<RT,m> values(0)\<close> starts from zeros\<close>
  "InjectionProblem_g p x e intersectionIt xi =
     (let vals = replicate InjectionProblem_m 0;
          densityW = 1000;
          vals = vals[pWIdx := 100000 - densityW * InjectionProblem.gravity p ! 1 * (depthBOR p - x ! 1)];
          vals = vals[switchIdx := 1 / 10 ^ 6]
      in vals)"

definition InjectionProblem_initial ::
  "FieldVector \<Rightarrow> InjectionProblem \<Rightarrow> FieldVector \<Rightarrow> 'e \<Rightarrow> FieldVector \<Rightarrow> FieldVector" where
  \<comment> \<open>the initial values; \<open>FieldVector<RT,m> values\<close> is not initialised: \<open>uninit\<close>
     is its content before the two assignments\<close>
  "InjectionProblem_initial uninit p x e xi =
     (let vals = uninit;
          densityW = 1000;
          vals = vals[pWIdx := 100000 - densityW * InjectionProblem.gravity p ! 1 * (depthBOR p - x ! 1)];
          vals = vals[switchIdx := 1 / 10 ^ 6]
      in vals)"

subsection \<open>InjectionSoil\<close>

record InjectionSoil =
  lowK :: FieldMatrix
  highK :: FieldMatrix
  layerBottom :: real

definition InjectionSoil_ctor :: "nat \<Rightarrow> InjectionSoil" where
  \<comment> \<open>\<open>lowK_ = highK_ = 0.\<close>, the loop over the diagonal, \<open>layerBottom_ = 22.0\<close>\<close>
  "InjectionSoil_ctor dimG =
     (let (lo, hi) =
            fold (\<lambda>i (lo, hi). (setEntry lo i i (5 / 10 ^ 14), setEntry hi i i (1 / 10 ^ 12)))
              [0..<dimG] (zeroMatrix dimG, zeroMatrix dimG)
      in \<lparr> lowK = lo, highK = hi, layerBottom = 22.0 \<rparr>)"

definition InjectionSoil_K ::
  "InjectionSoil \<Rightarrow> FieldVector \<Rightarrow> 'e \<Rightarrow> FieldVector \<Rightarrow> FieldMatrix \<times> InjectionSoil" where
  \<comment> \<open>\<open>K\<close> is not declared \<open>const\<close>: the soil after the call is returned with the tensor\<close>
  "InjectionSoil_K s x e xi = (if x ! 1 < layerBottom s then (highK s, s) else (lowK s, s))"

definition InjectionSoil_porosity ::
  "InjectionSoil \<Rightarrow> FieldVector \<Rightarrow> 'e \<Rightarrow> FieldVector \<Rightarrow> real" where
  "InjectionSoil_porosity s x e xi = 0.3"

definition isotropic :: "nat \<Rightarrow> Scalar \<Rightarrow> FieldMatrix" where
  \<comment> \<open>the specification's isotropic tensor: \<open>d\<close> on the diagonal, zero elsewhere\<close>
  "isotropic n d = map (\<lambda>i. map (\<lambda>j. if i = j then d else 0) [0..<n]) [0..<n]"


section \<open>ewoms/models/common/multiphasebaseproblem.hh\<close>

type_synonym DimVector = FieldVector
type_synonym DimMatrix = FieldMatrix

text \<open>
  What the class reaches through \<open>this->simulator()\<close>: the elements of the grid view,
  each with its refinement level and the saturations of its degrees of freedom
  (\<open>intensiveQuantities(dofIdx, 0).fluidState().saturation(phaseIdx)\<close> after
  \<open>elemCtx.updateAll(element)\<close>, one list of phases per degree of freedom), and
  the refinement mark the grid keeps for each element.
\<close>

record GridElement =
  level :: int
  dofSaturation :: "Scalar list list"

record Simulator =
  gridElements :: "GridElement list"
  gridMark :: "int list"

text \<open>
  The object: its own member \<open>gravity_\<close> and the simulator of its
  \<open>FvBaseProblem\<close> part.
\<close>

record MultiPhaseBaseProblem =
  gravity :: DimVector
  simulator :: Simulator

text \<open>
  The context of \<open>intersectionIntrinsicPermeability\<close>:
  \<open>context.stencil(timeIdx).interiorFace(intersectionIdx)\<close> gives the face, whose
  \<open>interiorIndex()\<close> and \<open>exteriorIndex()\<close> are read.
\<close>

record Context =
  interiorIndex :: "int \<Rightarrow> int \<Rightarrow> int"
  exteriorIndex :: "int \<Rightarrow> int \<Rightarrow> int"

text \<open>
  The compile-time and run-time configuration the class reads: the properties
  \<open>NumPhases\<close> and \<open>GridView::dimensionworld\<close>, the parameter \<open>EnableGravity\<close>,
  the default-constructed \<open>MaterialLawParams\<close>, and two functions of other
  libraries (\<open>Opm::harmonicMean\<close>, the grid communicator's \<open>sum\<close>).
\<close>

record 'mp Config =
  numPhases :: nat
  dimWorld :: nat
  EnableGravity :: bool
  MaterialLawParams_default :: 'mp
  harmonicMean :: "Scalar \<Rightarrow> Scalar \<Rightarrow> Scalar"
  commSum :: "int \<Rightarrow> int"

definition MultiPhaseBaseProblem_init ::
  "'mp Config \<Rightarrow> MultiPhaseBaseProblem \<Rightarrow> MultiPhaseBaseProblem" where
  \<comment> \<open>\<open>init_\<close>: \<open>gravity_ = 0.0\<close> sets every component\<close>
  "MultiPhaseBaseProblem_init cfg p =
     (let p = p\<lparr>gravity := map (\<lambda>_. 0) (gravity p)\<rparr>
      in if EnableGravity cfg
         then p\<lparr>gravity := (gravity p)[dimWorld cfg - 1 := - 9.81]\<rparr>
         else p)"

definition MultiPhaseBaseProblem_ctor ::
  "'mp Config \<Rightarrow> DimVector \<Rightarrow> Simulator \<Rightarrow> MultiPhaseBaseProblem" where
  \<comment> \<open>\<open>uninit\<close>: the content of \<open>gravity_\<close> before \<open>init_\<close> runs\<close>
  "MultiPhaseBaseProblem_ctor cfg uninit sim =
     MultiPhaseBaseProblem_init cfg \<lparr> gravity = uninit, simulator = sim \<rparr>"

text \<open>
  The parameter accessors. \<open>OPM_THROW(std::logic_error, msg)\<close> is the value
  \<open>Inl (logic_error msg)\<close>, with the message handed to the macro.
\<close>

definition MultiPhaseBaseProblem_intrinsicPermeability ::
  "MultiPhaseBaseProblem \<Rightarrow> 'c \<Rightarrow> int \<Rightarrow> int \<Rightarrow> error + DimMatrix" where
  "MultiPhaseBaseProblem_intrinsicPermeability p ctx spaceIdx timeIdx =
     Inl (logic_error ''Not implemented: Problem::intrinsicPermeability()'')"

definition MultiPhaseBaseProblem_porosity ::
  "MultiPhaseBaseProblem \<Rightarrow> 'c \<Rightarrow> int \<Rightarrow> int \<Rightarrow> error + Scalar" where
  "MultiPhaseBaseProblem_porosity p ctx spaceIdx timeIdx =
     Inl (logic_error ''Not implemented: Problem::porosity()'')"

definition MultiPhaseBaseProblem_heatCapacitySolid ::
  "MultiPhaseBaseProblem \<Rightarrow> 'c \<Rightarrow> int \<Rightarrow> int \<Rightarrow> error + Scalar" where
  "MultiPhaseBaseProblem_heatCapacitySolid p ctx spaceIdx timeIdx =
     Inl (logic_error ''Not implemented: Problem::heatCapacitySolid()'')"

definition MultiPhaseBaseProblem_heatConductionParams ::
  "MultiPhaseBaseProblem \<Rightarrow> 'c \<Rightarrow> int \<Rightarrow> int \<Rightarrow> error + 'hp" where
  "MultiPhaseBaseProblem_heatConductionParams p ctx spaceIdx timeIdx =
     Inl (logic_error ''Not implemented: Problem::heatConductionParams()'')"

definition MultiPhaseBaseProblem_tortuosity ::
  "MultiPhaseBaseProblem \<Rightarrow> 'c \<Rightarrow> int \<Rightarrow> int \<Rightarrow> error + Scalar" where
  "MultiPhaseBaseProblem_tortuosity p ctx spaceIdx timeIdx =
     Inl (logic_error ''Not implemented: Problem::tortuosity()'')"

definition MultiPhaseBaseProblem_dispersivity ::
  "MultiPhaseBaseProblem \<Rightarrow> 'c \<Rightarrow> int \<Rightarrow> int \<Rightarrow> error + Scalar" where
  "MultiPhaseBaseProblem_dispersivity p ctx spaceIdx timeIdx =
     Inl (logic_error ''Not implemented: Problem::dispersivity()'')"

definition MultiPhaseBaseProblem_materialLawParams ::
  "'mp Config \<Rightarrow> MultiPhaseBaseProblem \<Rightarrow> 'c \<Rightarrow> int \<Rightarrow> int \<Rightarrow> error + 'mp" where
  \<comment> \<open>\<open>static MaterialLawParams dummy; return dummy;\<close>\<close>
  "MultiPhaseBaseProblem_materialLawParams cfg p ctx spaceIdx timeIdx =
     (let dummy = MaterialLawParams_default cfg in Inr dummy)"

definition MultiPhaseBaseProblem_temperature :: "MultiPhaseBaseProblem \<Rightarrow> error + Scalar" where
  "MultiPhaseBaseProblem_temperature p =
     Inl (logic_error
       ''Not implemented:temperature() method not implemented by the actual problem'')"

definition MultiPhaseBaseProblem_gravity :: "MultiPhaseBaseProblem \<Rightarrow> error + DimVector" where
  "MultiPhaseBaseProblem_gravity p = Inr (gravity p)"

text \<open>
  The methods that go through \<open>asImp_()\<close>. The class is modelled with no method
  overridden, so that \<open>asImp_()\<close> reaches the methods above.
\<close>

definition MultiPhaseBaseProblem_temperature_at ::
  "MultiPhaseBaseProblem \<Rightarrow> 'c \<Rightarrow> int \<Rightarrow> int \<Rightarrow> error + Scalar" where
  "MultiPhaseBaseProblem_temperature_at p ctx spaceIdx timeIdx =
     MultiPhaseBaseProblem_temperature p"

definition MultiPhaseBaseProblem_gravity_at ::
  "MultiPhaseBaseProblem \<Rightarrow> 'c \<Rightarrow> int \<Rightarrow> int \<Rightarrow> error + DimVector" where
  "MultiPhaseBaseProblem_gravity_at p ctx spaceIdx timeIdx =
     MultiPhaseBaseProblem_gravity p"

definition MultiPhaseBaseProblem_intersectionIntrinsicPermeability ::
  "'mp Config \<Rightarrow> MultiPhaseBaseProblem \<Rightarrow> Context \<Rightarrow> int \<Rightarrow> int \<Rightarrow> error + DimMatrix" where
  \<comment> \<open>the entry-wise harmonic mean of the two permeabilities; the value is the
     \<open>result\<close> the source writes through its first argument\<close>
  "MultiPhaseBaseProblem_intersectionIntrinsicPermeability cfg p ctx intersectionIdx timeIdx =
     (case MultiPhaseBaseProblem_intrinsicPermeability p ctx
             (interiorIndex ctx timeIdx intersectionIdx) timeIdx of
        Inl e \<Rightarrow> Inl e
      | Inr K1 \<Rightarrow>
         (case MultiPhaseBaseProblem_intrinsicPermeability p ctx
                 (exteriorIndex ctx timeIdx intersectionIdx) timeIdx of
            Inl e \<Rightarrow> Inl e
          | Inr K2 \<Rightarrow>
             Inr (map (\<lambda>i. map (\<lambda>j. harmonicMean cfg (K1 ! i ! j) (K2 ! i ! j))
                            [0..<dimWorld cfg])
                   [0..<dimWorld cfg])))"

text \<open>
  \<open>markForGridAdaptation\<close>, the one method that is not \<open>const\<close>. For each element
  and each phase it takes the least and the greatest saturation over the degrees of
  freedom, marks the element in the grid and counts the marks that are not zero.
\<close>

definition markPhase :: "GridElement \<Rightarrow> nat \<Rightarrow> nat \<Rightarrow> int \<times> int list \<Rightarrow> int \<times> int list" where
  "markPhase element elemIdx phaseIdx = (\<lambda>(numMarked, marks).
     (let (minSat, maxSat) =
            fold (\<lambda>dof (minSat, maxSat). (min minSat (dof ! phaseIdx), max maxSat (dof ! phaseIdx)))
              (dofSaturation element) (10 ^ 100, - (10 ^ 100));
          indicator = (maxSat - minSat) / (max 0.01 (maxSat + minSat) / 2)
      in if indicator > 0.2 \<and> level element < 2 then (numMarked + 1, marks[elemIdx := 1])
         else if indicator < 0.025 then (numMarked + 1, marks[elemIdx := - 1])
         else (numMarked, marks[elemIdx := 0])))"

definition MultiPhaseBaseProblem_markForGridAdaptation ::
  "'mp Config \<Rightarrow> MultiPhaseBaseProblem \<Rightarrow> int \<times> MultiPhaseBaseProblem" where
  "MultiPhaseBaseProblem_markForGridAdaptation cfg p =
     (let sim = simulator p;
          (numMarked, marks) =
            fold (\<lambda>(elemIdx, element). fold (markPhase element elemIdx) [0..<numPhases cfg])
              (enumerate 0 (gridElements sim)) (0, gridMark sim)
      in (commSum cfg numMarked, p\<lparr>simulator := sim\<lparr>gridMark := marks\<rparr>\<rparr>))"

text \<open>
  The public operations on an object, as calls: each gives what the method returns
  (or throws) and the object after the call.
\<close>

datatype Operation =
    call_intersectionIntrinsicPermeability Context int int
  | call_intrinsicPermeability Context int int
  | call_porosity Context int int
  | call_heatCapacitySolid Context int int
  | call_heatConductionParams Context int int
  | call_tortuosity Context int int
  | call_dispersivity Context int int
  | call_materialLawParams Context int int
  | call_temperature_at Context int int
  | call_temperature
  | call_gravity_at Context int int
  | call_gravity
  | call_markForGridAdaptation

datatype ('mp, 'hp) Returned =
    a_Scalar Scalar
  | a_DimMatrix DimMatrix
  | a_DimVector DimVector
  | a_MaterialLawParams 'mp
  | a_HeatConductionLawParams 'hp
  | an_int int

fun MultiPhaseBaseProblem_call ::
  "'mp Config \<Rightarrow> Operation \<Rightarrow> MultiPhaseBaseProblem
     \<Rightarrow> (error + ('mp, 'hp) Returned) \<times> MultiPhaseBaseProblem" where
  "MultiPhaseBaseProblem_call cfg (call_intersectionIntrinsicPermeability ctx i t) p =
     (map_sum id a_DimMatrix
        (MultiPhaseBaseProblem_intersectionIntrinsicPermeability cfg p ctx i t), p)"
| "MultiPhaseBaseProblem_call cfg (call_intrinsicPermeability ctx i t) p =
     (map_sum id a_DimMatrix (MultiPhaseBaseProblem_intrinsicPermeability p ctx i t), p)"
| "MultiPhaseBaseProblem_call cfg (call_porosity ctx i t) p =
     (map_sum id a_Scalar (MultiPhaseBaseProblem_porosity p ctx i t), p)"
| "MultiPhaseBaseProblem_call cfg (call_heatCapacitySolid ctx i t) p =
     (map_sum id a_Scalar (MultiPhaseBaseProblem_heatCapacitySolid p ctx i t), p)"
| "MultiPhaseBaseProblem_call cfg (call_heatConductionParams ctx i t) p =
     (map_sum id a_HeatConductionLawParams
        (MultiPhaseBaseProblem_heatConductionParams p ctx i t), p)"
| "MultiPhaseBaseProblem_call cfg (call_tortuosity ctx i t) p =
     (map_sum id a_Scalar (MultiPhaseBaseProblem_tortuosity p ctx i t), p)"
| "MultiPhaseBaseProblem_call cfg (call_dispersivity ctx i t) p =
     (map_sum id a_Scalar (MultiPhaseBaseProblem_dispersivity p ctx i t), p)"
| "MultiPhaseBaseProblem_call cfg (call_materialLawParams ctx i t) p =
     (map_sum id a_MaterialLawParams
        (MultiPhaseBaseProblem_materialLawParams cfg p ctx i t), p)"
| "MultiPhaseBaseProblem_call cfg (call_temperature_at ctx i t) p =
     (map_sum id a_Scalar (MultiPhaseBaseProblem_temperature_at p ctx i t), p)"
| "MultiPhaseBaseProblem_call cfg call_temperature p =
     (map_sum id a_Scalar (MultiPhaseBaseProblem_temperature p), p)"
| "MultiPhaseBaseProblem_call cfg (call_gravity_at ctx i t) p =
     (map_sum id a_DimVector (MultiPhaseBaseProblem_gravity_at p ctx i t), p)"
| "MultiPhaseBaseProblem_call cfg call_gravity p =
     (map_sum id a_DimVector (MultiPhaseBaseProblem_gravity p), p)"
| "MultiPhaseBaseProblem_call cfg call_markForGridAdaptation p =
     (let (numMarked, p') = MultiPhaseBaseProblem_markForGridAdaptation cfg p
      in (Inr (an_int numMarked), p'))"

fun MultiPhaseBaseProblem_calls ::
  "'mp Config \<Rightarrow> Operation list \<Rightarrow> MultiPhaseBaseProblem
     \<Rightarrow> (error + ('mp, 'hp) Returned) list \<times> MultiPhaseBaseProblem" where
  "MultiPhaseBaseProblem_calls cfg [] p = ([], p)"
| "MultiPhaseBaseProblem_calls cfg (c # cs) p =
     (let (r, p') = MultiPhaseBaseProblem_call cfg c p;
          (rs, p'') = MultiPhaseBaseProblem_calls cfg cs p'
      in (r # rs, p''))"


section \<open>ewoms/io/vtkblackoilmodule.hh\<close>

type_synonym ScalarBuffer = "Scalar list"

text \<open>
  The five run-time parameters the module reads with \<open>EWOMS_GET_PARAM\<close>.
\<close>

record VtkParams =
  VtkWriteGasDissolutionFactor :: bool
  VtkWriteSaturatedOilGasDissolutionFactor :: bool
  VtkWriteGasFormationVolumeFactor :: bool
  VtkWriteOilFormationVolumeFactor :: bool
  VtkWriteOilSaturationPressure :: bool

text \<open>
  The \<open>FluidSystem\<close> property of the black-oil model, as far as the module uses it.
\<close>

record FluidSystem =
  oilPhaseIdx :: nat
  gasPhaseIdx :: nat
  gasCompIdx :: nat
  oilCompIdx :: nat
  referenceDensity :: "nat \<Rightarrow> nat \<Rightarrow> Scalar"
  gasDissolutionFactor :: "Scalar \<Rightarrow> Scalar \<Rightarrow> nat \<Rightarrow> Scalar"
  gasFormationVolumeFactor :: "Scalar \<Rightarrow> Scalar \<Rightarrow> Scalar \<Rightarrow> nat \<Rightarrow> Scalar"
  saturatedOilFormationVolumeFactor :: "Scalar \<Rightarrow> Scalar \<Rightarrow> nat \<Rightarrow> Scalar"
  oilSaturationPressure :: "Scalar \<Rightarrow> Scalar \<Rightarrow> nat \<Rightarrow> Scalar"

text \<open>
  What \<open>processElement\<close> reads of the element context for one primary degree of
  freedom, at time index 0: the fluid state of its intensive quantities (\<open>Toolbox::value\<close>
  takes the value of an \<open>Evaluation\<close>; the fields hold these values), its global index
  and the PVT region of its primary variables. The element context is the list of its
  primary degrees of freedom, \<open>numPrimaryDof(0)\<close> long.
\<close>

record DofContext =
  fs_pressure :: "nat \<Rightarrow> Scalar"
  fs_temperature :: "nat \<Rightarrow> Scalar"
  fs_massFraction :: "nat \<Rightarrow> nat \<Rightarrow> Scalar"
  globalSpaceIndex :: nat
  pvtRegionIndex :: nat

text \<open>
  The writer, by what has been committed to it: \<open>commitScalarBuffer_\<close> of
  \<open>BaseOutputModule\<close> hands a buffer to the writer under a name. Whether the
  \<open>dynamic_cast\<close> to \<open>VtkMultiWriter\<close> succeeds is a field of its own.
\<close>

record BaseOutputWriter =
  isVtkMultiWriter :: bool
  committed :: "(string \<times> ScalarBuffer) list"

definition commitScalarBuffer ::
  "BaseOutputWriter \<Rightarrow> string \<Rightarrow> ScalarBuffer \<Rightarrow> BaseOutputWriter" where
  "commitScalarBuffer baseWriter name buffer =
     baseWriter\<lparr>committed := committed baseWriter @ [(name, buffer)]\<rparr>"

record VtkBlackOilModule =
  gasDissolutionFactor :: ScalarBuffer
  saturatedOilGasDissolutionFactor :: ScalarBuffer
  gasFormationVolumeFactor :: ScalarBuffer
  saturatedOilFormationVolumeFactor :: ScalarBuffer
  oilSaturationPressure :: ScalarBuffer

definition VtkBlackOilModule_ctor :: VtkBlackOilModule where
  \<comment> \<open>the buffers are default-constructed: empty\<close>
  "VtkBlackOilModule_ctor =
     \<lparr> gasDissolutionFactor = [], saturatedOilGasDissolutionFactor = [],
       gasFormationVolumeFactor = [], saturatedOilFormationVolumeFactor = [],
       oilSaturationPressure = [] \<rparr>"

definition gasDissolutionFactorOutput :: "VtkParams \<Rightarrow> bool" where
  "gasDissolutionFactorOutput prm = VtkWriteGasDissolutionFactor prm"

definition saturatedOilGasDissolutionFactorOutput :: "VtkParams \<Rightarrow> bool" where
  "saturatedOilGasDissolutionFactorOutput prm = VtkWriteSaturatedOilGasDissolutionFactor prm"

definition gasFormationVolumeFactorOutput :: "VtkParams \<Rightarrow> bool" where
  "gasFormationVolumeFactorOutput prm = VtkWriteGasFormationVolumeFactor prm"

definition saturatedOilFormationVolumeFactorOutput :: "VtkParams \<Rightarrow> bool" where
  "saturatedOilFormationVolumeFactorOutput prm = VtkWriteOilFormationVolumeFactor prm"

definition oilSaturationPressureOutput :: "VtkParams \<Rightarrow> bool" where
  "oilSaturationPressureOutput prm = VtkWriteOilSaturationPressure prm"

definition VtkBlackOilModule_allocBuffers ::
  "(ScalarBuffer \<Rightarrow> ScalarBuffer) \<Rightarrow> VtkParams \<Rightarrow> VtkBlackOilModule \<Rightarrow> VtkBlackOilModule" where
  \<comment> \<open>\<open>resizeScalarBuffer\<close> is \<open>BaseOutputModule::resizeScalarBuffer_\<close>, a parameter\<close>
  "VtkBlackOilModule_allocBuffers resizeScalarBuffer prm m =
     (let m = (if gasDissolutionFactorOutput prm
               then m\<lparr>gasDissolutionFactor := resizeScalarBuffer (gasDissolutionFactor m)\<rparr>
               else m);
          m = (if saturatedOilGasDissolutionFactorOutput prm
               then m\<lparr>saturatedOilGasDissolutionFactor :=
                         resizeScalarBuffer (saturatedOilGasDissolutionFactor m)\<rparr>
               else m);
          m = (if gasFormationVolumeFactorOutput prm
               then m\<lparr>gasFormationVolumeFactor := resizeScalarBuffer (gasFormationVolumeFactor m)\<rparr>
               else m);
          m = (if saturatedOilFormationVolumeFactorOutput prm
               then m\<lparr>saturatedOilFormationVolumeFactor :=
                         resizeScalarBuffer (saturatedOilFormationVolumeFactor m)\<rparr>
               else m);
          m = (if oilSaturationPressureOutput prm
               then m\<lparr>oilSaturationPressure := resizeScalarBuffer (oilSaturationPressure m)\<rparr>
               else m)
      in m)"

definition processDof ::
  "VtkParams \<Rightarrow> FluidSystem \<Rightarrow> DofContext \<Rightarrow> VtkBlackOilModule \<Rightarrow> VtkBlackOilModule" where
  \<comment> \<open>the body of the loop of \<open>processElement\<close>\<close>
  "processDof prm fsys dof m =
     (let globalDofIdx = globalSpaceIndex dof;
          po = fs_pressure dof (oilPhaseIdx fsys);
          To = fs_temperature dof (oilPhaseIdx fsys);
          X_oG = fs_massFraction dof (oilPhaseIdx fsys) (gasCompIdx fsys);
          X_gO = fs_massFraction dof (gasPhaseIdx fsys) (oilCompIdx fsys);
          regionIdx = pvtRegionIndex dof;
          rhooRef = referenceDensity fsys (oilPhaseIdx fsys) regionIdx;
          rhogRef = referenceDensity fsys (gasPhaseIdx fsys) regionIdx;
          m = (if gasDissolutionFactorOutput prm
               then m\<lparr>gasDissolutionFactor :=
                         (gasDissolutionFactor m)
                           [globalDofIdx := X_oG / rhogRef * rhooRef / (1 - X_oG)]\<rparr>
               else m);
          m = (if saturatedOilGasDissolutionFactorOutput prm
               then m\<lparr>saturatedOilGasDissolutionFactor :=
                         (saturatedOilGasDissolutionFactor m)
                           [globalDofIdx := FluidSystem.gasDissolutionFactor fsys To po regionIdx]\<rparr>
               else m);
          m = (if gasFormationVolumeFactorOutput prm
               then m\<lparr>gasFormationVolumeFactor :=
                         (gasFormationVolumeFactor m)
                           [globalDofIdx :=
                              FluidSystem.gasFormationVolumeFactor fsys To po X_gO regionIdx]\<rparr>
               else m);
          m = (if saturatedOilFormationVolumeFactorOutput prm
               then m\<lparr>saturatedOilFormationVolumeFactor :=
                         (saturatedOilFormationVolumeFactor m)
                           [globalDofIdx :=
                              FluidSystem.saturatedOilFormationVolumeFactor fsys To po regionIdx]\<rparr>
               else m);
          m = (if oilSaturationPressureOutput prm
               then m\<lparr>oilSaturationPressure :=
                         (oilSaturationPressure m)
                           [globalDofIdx := FluidSystem.oilSaturationPressure fsys To X_oG regionIdx]\<rparr>
               else m)
      in m)"

definition VtkBlackOilModule_processElement ::
  "VtkParams \<Rightarrow> FluidSystem \<Rightarrow> DofContext list \<Rightarrow> VtkBlackOilModule \<Rightarrow> VtkBlackOilModule" where
  "VtkBlackOilModule_processElement prm fsys elemCtx m = fold (processDof prm fsys) elemCtx m"

definition VtkBlackOilModule_commitBuffers ::
  "VtkParams \<Rightarrow> VtkBlackOilModule \<Rightarrow> BaseOutputWriter \<Rightarrow> BaseOutputWriter" where
  "VtkBlackOilModule_commitBuffers prm m baseWriter =
     (if \<not> isVtkMultiWriter baseWriter then baseWriter
      else
        (let w = baseWriter;
             w = (if gasDissolutionFactorOutput prm
                  then commitScalarBuffer w ''R_s'' (gasDissolutionFactor m) else w);
             w = (if saturatedOilGasDissolutionFactorOutput prm
                  then commitScalarBuffer w ''R_s,sat'' (saturatedOilGasDissolutionFactor m) else w);
             w = (if gasFormationVolumeFactorOutput prm
                  then commitScalarBuffer w ''B_g'' (gasFormationVolumeFactor m) else w);
             w = (if saturatedOilFormationVolumeFactorOutput prm
                  then commitScalarBuffer w ''B_o'' (saturatedOilFormationVolumeFactor m) else w);
             w = (if oilSaturationPressureOutput prm
                  then commitScalarBuffer w ''pressure_sat,o'' (oilSaturationPressure m) else w)
         in w))"

definition namedBuffers :: "string \<Rightarrow> BaseOutputWriter \<Rightarrow> ScalarBuffer list" where
  \<comment> \<open>the buffers a writer holds under a name, in the order they were committed\<close>
  "namedBuffers name w = map snd (filter (\<lambda>(n, b). n = name) (committed w))"

definition R_s :: "FluidSystem \<Rightarrow> DofContext \<Rightarrow> Scalar" where
  \<comment> \<open>the gas dissolution factor as the specification writes it\<close>
  "R_s fsys dof =
     (let X_oG = fs_massFraction dof (oilPhaseIdx fsys) (gasCompIdx fsys);
          rho_gas_ref = referenceDensity fsys (gasPhaseIdx fsys) (pvtRegionIndex dof);
          rho_oil_ref = referenceDensity fsys (oilPhaseIdx fsys) (pvtRegionIndex dof)
      in X_oG / rho_gas_ref * rho_oil_ref / (1 - X_oG))"


section \<open>dumux/freeflow/stokes2cni/stokes2cnimodel.hh\<close>

type_synonym PrimaryVariables = "Scalar list"
type_synonym SolutionVector = "PrimaryVariables list"
type_synonym ScalarField = "Scalar list"
type_synonym VelocityField = "FieldVector list"

text \<open>
  What \<open>addOutputVtkFields\<close> reads of the grid view: for each element the index
  \<open>elementMapper().map(*elemIt)\<close> and the global indices
  \<open>vertexMapper().map(*elemIt, vertexIdx, dim)\<close> of its \<open>count<dim>()\<close> vertices; the
  sizes \<open>size(dim)\<close> and \<open>size(0)\<close>; the rank of the process.
\<close>

record GridElementMaps =
  elementMapper_map :: nat
  vertexMapper_map :: "nat list"

record GridView =
  size_vertices :: nat
  size_elements :: nat
  elements :: "GridElementMaps list"
  comm_rank :: int

text \<open>
  The types the class takes from its \<open>TypeTag\<close>, with the methods called on them:
  \<open>FVElementGeometry::update\<close>, and \<open>VolumeVariables::update\<close> with its accessors
  (\<open>volVars_massFraction\<close> is \<open>fluidState().massFraction(phaseIdx, lCompIdx)\<close>). The
  problem is the same in every call and is not an argument. \<open>elemBcTypes\<close> is updated
  and never read, and is left out.
\<close>

record ('vv, 'g) Stokes2cniTypes =
  fvElemGeom_update :: "'g \<Rightarrow> GridElementMaps \<Rightarrow> 'g"
  volVars_update :: "'vv \<Rightarrow> PrimaryVariables \<Rightarrow> GridElementMaps \<Rightarrow> 'g \<Rightarrow> nat \<Rightarrow> 'vv"
  volVars_pressure :: "'vv \<Rightarrow> Scalar"
  volVars_massFraction :: "'vv \<Rightarrow> Scalar"
  volVars_temperature :: "'vv \<Rightarrow> Scalar"
  volVars_density :: "'vv \<Rightarrow> Scalar"
  volVars_viscosity :: "'vv \<Rightarrow> Scalar"
  volVars_enthalpy :: "'vv \<Rightarrow> Scalar"
  volVars_velocity :: "'vv \<Rightarrow> FieldVector"

text \<open>
  The buffers \<open>pN\<close>, \<open>delP\<close>, \<open>Xw\<close>, \<open>T\<close>, \<open>rho\<close>, \<open>mu\<close>, \<open>h\<close>, \<open>velocity\<close> and
  \<open>rank\<close> that the method allocates from the writer. \<open>allocateManagedBuffer\<close> does
  not initialise them: the method below takes their content as \<open>uninit\<close>.
\<close>

record OutputFields =
  pNField :: ScalarField
  delPField :: ScalarField
  XwField :: ScalarField
  TField :: ScalarField
  rhoField :: ScalarField
  muField :: ScalarField
  hField :: ScalarField
  velocityField :: VelocityField
  rankField :: ScalarField

text \<open>
  The writer, by the vertex data attached to it.
\<close>

datatype VertexData = ScalarData ScalarField | VectorData VelocityField nat

record MultiWriter =
  vertexData :: "(string \<times> VertexData) list"

definition attachVertexData :: "MultiWriter \<Rightarrow> VertexData \<Rightarrow> string \<Rightarrow> MultiWriter" where
  "attachVertexData writer buf name = writer\<lparr>vertexData := vertexData writer @ [(name, buf)]\<rparr>"

definition vertexStep ::
  "('vv, 'g) Stokes2cniTypes \<Rightarrow> SolutionVector \<Rightarrow> GridElementMaps \<Rightarrow> 'g \<Rightarrow> nat
     \<Rightarrow> 'vv \<times> OutputFields \<Rightarrow> 'vv \<times> OutputFields" where
  "vertexStep tt sol elem fvElemGeom vertexIdx = (\<lambda>(volVars, f).
     (let globalIdx = vertexMapper_map elem ! vertexIdx;
          volVars = volVars_update tt volVars (sol ! globalIdx) elem fvElemGeom vertexIdx;
          f = f\<lparr>pNField := (pNField f)[globalIdx := volVars_pressure tt volVars]\<rparr>;
          f = f\<lparr>delPField := (delPField f)[globalIdx := volVars_pressure tt volVars - 100000]\<rparr>;
          f = f\<lparr>XwField := (XwField f)[globalIdx := volVars_massFraction tt volVars]\<rparr>;
          f = f\<lparr>TField := (TField f)[globalIdx := volVars_temperature tt volVars]\<rparr>;
          f = f\<lparr>rhoField := (rhoField f)[globalIdx := volVars_density tt volVars]\<rparr>;
          f = f\<lparr>muField := (muField f)[globalIdx := volVars_viscosity tt volVars]\<rparr>;
          f = f\<lparr>hField := (hField f)[globalIdx := volVars_enthalpy tt volVars]\<rparr>;
          f = f\<lparr>velocityField := (velocityField f)[globalIdx := volVars_velocity tt volVars]\<rparr>
      in (volVars, f)))"

definition elementStep ::
  "('vv, 'g) Stokes2cniTypes \<Rightarrow> GridView \<Rightarrow> SolutionVector \<Rightarrow> GridElementMaps
     \<Rightarrow> 'g \<times> 'vv \<times> OutputFields \<Rightarrow> 'g \<times> 'vv \<times> OutputFields" where
  "elementStep tt gridView sol elem = (\<lambda>(fvElemGeom, volVars, f).
     (let idx = elementMapper_map elem;
          f = f\<lparr>rankField := (rankField f)[idx := real_of_int (comm_rank gridView)]\<rparr>;
          fvElemGeom = fvElemGeom_update tt fvElemGeom elem;
          numLocalVerts = length (vertexMapper_map elem);
          (volVars, f) = fold (vertexStep tt sol elem fvElemGeom) [0..<numLocalVerts] (volVars, f)
      in (fvElemGeom, volVars, f)))"

definition Stokes2cniModel_addOutputVtkFields ::
  "('vv, 'g) Stokes2cniTypes \<Rightarrow> GridView \<Rightarrow> nat \<Rightarrow> OutputFields \<Rightarrow> 'g \<Rightarrow> 'vv
     \<Rightarrow> SolutionVector \<Rightarrow> MultiWriter \<Rightarrow> MultiWriter" where
  "Stokes2cniModel_addOutputVtkFields tt gridView dimG uninit fvElemGeom volVars sol writer =
     (let (fvElemGeom, volVars, f) =
            fold (elementStep tt gridView sol) (elements gridView) (fvElemGeom, volVars, uninit);
          writer = attachVertexData writer (ScalarData (pNField f)) ''pg'';
          writer = attachVertexData writer (ScalarData (delPField f)) ''delP'';
          writer = attachVertexData writer (ScalarData (XwField f)) ''X_gH2O'';
          writer = attachVertexData writer (ScalarData (TField f)) ''temperature'';
          writer = attachVertexData writer (ScalarData (rhoField f)) ''rhoG'';
          writer = attachVertexData writer (ScalarData (muField f)) ''mu'';
          writer = attachVertexData writer (ScalarData (hField f)) ''h'';
          writer = attachVertexData writer (VectorData (velocityField f) dimG) ''v''
      in writer)"

definition attached ::  "string \<Rightarrow> MultiWriter \<Rightarrow> VertexData list" where
  \<comment> \<open>what a writer holds under a name, in the order it was attached\<close>
  "attached name writer = map snd (filter (\<lambda>(n, b). n = name) (vertexData writer))"

definition pressureFieldsOk :: "(nat \<Rightarrow> Scalar \<Rightarrow> bool) \<Rightarrow> nat set \<Rightarrow> nat \<Rightarrow> OutputFields \<Rightarrow> bool" where
  \<comment> \<open>the invariant of the two loops, for the vertices \<open>S\<close> written so far\<close>
  "pressureFieldsOk Q S n f \<longleftrightarrow>
     length (pNField f) = n \<and> length (delPField f) = n
     \<and> (\<forall>v \<in> S. delPField f ! v = pNField f ! v - 100000 \<and> Q v (pNField f ! v))"

definition fromVolVars ::
  "('vv, 'g) Stokes2cniTypes \<Rightarrow> GridView \<Rightarrow> SolutionVector \<Rightarrow> nat \<Rightarrow> Scalar \<Rightarrow> bool" where
  \<comment> \<open>\<open>x\<close> is the pressure of volume variables updated from the solution at vertex \<open>v\<close>\<close>
  "fromVolVars tt gridView sol v x \<longleftrightarrow>
     (\<exists>volVars fvElemGeom elem vertexIdx.
        elem \<in> set (elements gridView) \<and> vertexIdx < length (vertexMapper_map elem)
        \<and> vertexMapper_map elem ! vertexIdx = v
        \<and> x = volVars_pressure tt
                (volVars_update tt volVars (sol ! v) elem fvElemGeom vertexIdx))"


section \<open>ewoms/models/flash/flashvolumevariables.hh\<close>

type_synonym ComponentVector = "Scalar list"

text \<open>
  Modelled from the spec: \<open>Opm::CompositionalFluidState\<close> is a class of another
  library and not among the sources. It is the record of the quantities the
  specification's data model lists for a fluid state (per-phase pressure, temperature,
  composition, density, viscosity, enthalpy) and the saturations, with one temperature
  for all phases, as the call \<open>setTemperature(T)\<close> in \<open>update\<close> has it. The
  functions after it are the methods \<open>update\<close> and the accessors call; \<open>assign\<close>
  copies every quantity of the other state.
\<close>

record FluidState =
  temperature :: Scalar
  pressure :: "Scalar list"
  saturation :: "Scalar list"
  moleFraction :: "Scalar list list"
  density :: "Scalar list"
  viscosity :: "Scalar list"
  enthalpy :: "Scalar list"

definition FluidState_temperature :: "FluidState \<Rightarrow> nat \<Rightarrow> Scalar" where
  "FluidState_temperature fs phaseIdx = temperature fs"

definition FluidState_assign :: "FluidState \<Rightarrow> FluidState \<Rightarrow> FluidState" where
  "FluidState_assign fs other = other"

definition FluidState_setTemperature :: "FluidState \<Rightarrow> Scalar \<Rightarrow> FluidState" where
  "FluidState_setTemperature fs T = fs\<lparr>temperature := T\<rparr>"

definition FluidState_setViscosity :: "FluidState \<Rightarrow> nat \<Rightarrow> Scalar \<Rightarrow> FluidState" where
  "FluidState_setViscosity fs phaseIdx mu = fs\<lparr>viscosity := (viscosity fs)[phaseIdx := mu]\<rparr>"

text \<open>
  What \<open>update\<close> reads of the element context: the primary variables, the problem
  (its material-law parameters, porosity and intrinsic permeability at this context;
  the last two throw in \<open>MultiPhaseBaseProblem\<close>, so they return a sum),
  \<open>model().localJacobian().baseEpsilon()\<close>, and the fluid state of the thermodynamic
  hint (\<open>None\<close> for the null pointer).
\<close>

record 'mp Problem =
  Problem_materialLawParams :: "int \<Rightarrow> int \<Rightarrow> 'mp"
  Problem_porosity :: "int \<Rightarrow> int \<Rightarrow> error + Scalar"
  Problem_intrinsicPermeability :: "int \<Rightarrow> int \<Rightarrow> error + DimMatrix"

record 'mp ElementContext =
  primaryVars :: "int \<Rightarrow> int \<Rightarrow> Scalar list"
  problem :: "'mp Problem"
  baseEpsilon :: Scalar
  thermodynamicHint :: "int \<Rightarrow> int \<Rightarrow> FluidState option"

text \<open>
  The properties of the \<open>TypeTag\<close>: the constants, the parameter \<open>FlashTolerance\<close>,
  the default-constructed \<open>ParameterCache\<close>, and the functions of the flash solver,
  the fluid system, the material law and the base classes that \<open>update\<close> calls. The
  base-class parts of the object are one value of type \<open>'b\<close>. A function that takes
  the fluid state or the parameter cache by reference returns them.
\<close>

record ('pc, 'mp, 'b) FlashTypes =
  NumPhases :: nat
  NumComponents :: nat
  cTot0Idx :: nat
  FlashTolerance :: Scalar
  ParameterCache_default :: 'pc
  ParentType_update :: "'b \<Rightarrow> 'mp ElementContext \<Rightarrow> int \<Rightarrow> int \<Rightarrow> 'b"
  updateTemperatures :: "FluidState \<Rightarrow> 'mp ElementContext \<Rightarrow> int \<Rightarrow> int \<Rightarrow> FluidState"
  guessInitial :: "FluidState \<Rightarrow> 'pc \<Rightarrow> ComponentVector \<Rightarrow> FluidState \<times> 'pc"
  solve :: "FluidState \<Rightarrow> 'pc \<Rightarrow> 'mp \<Rightarrow> ComponentVector \<Rightarrow> Scalar \<Rightarrow> FluidState \<times> 'pc"
  FluidSystem_viscosity :: "FluidState \<Rightarrow> 'pc \<Rightarrow> nat \<Rightarrow> Scalar"
  relativePermeabilities :: "Scalar list \<Rightarrow> 'mp \<Rightarrow> FluidState \<Rightarrow> Scalar list"
  VelocityVolumeVariables_update :: "'b \<Rightarrow> 'mp ElementContext \<Rightarrow> int \<Rightarrow> int \<Rightarrow> 'b"
  EnergyVolumeVariables_update ::
    "'b \<Rightarrow> FluidState \<Rightarrow> 'pc \<Rightarrow> 'mp ElementContext \<Rightarrow> int \<Rightarrow> int \<Rightarrow> 'b \<times> FluidState \<times> 'pc"
  DiffusionVolumeVariables_update ::
    "'b \<Rightarrow> FluidState \<Rightarrow> 'pc \<Rightarrow> 'mp ElementContext \<Rightarrow> int \<Rightarrow> int \<Rightarrow> 'b \<times> FluidState \<times> 'pc"

text \<open>
  The calls \<open>update\<close> makes to these components, recorded in the order they are made.
\<close>

datatype ('pc, 'mp) Call =
    to_ParentType_update
  | to_updateTemperatures FluidState
  | to_guessInitial FluidState 'pc ComponentVector
  | to_materialLawParams
  | to_solve FluidState 'pc 'mp ComponentVector Scalar
  | to_viscosity nat
  | to_relativePermeabilities 'mp FluidState
  | to_porosity
  | to_intrinsicPermeability
  | to_VelocityVolumeVariables_update
  | to_EnergyVolumeVariables_update FluidState 'pc
  | to_DiffusionVolumeVariables_update FluidState 'pc

record 'b FlashVolumeVariables =
  bases :: 'b
  fluidState :: FluidState
  porosity :: Scalar
  intrinsicPerm :: DimMatrix
  relativePermeability :: "Scalar list"

text \<open>
  The loop \<open>for phaseIdx < numPhases\<close> that sets the phase viscosities.
\<close>

fun setViscosities ::
  "('pc, 'mp, 'b) FlashTypes \<Rightarrow> 'pc \<Rightarrow> nat list \<Rightarrow> FluidState \<Rightarrow> FluidState" where
  "setViscosities tt paramCache [] fs = fs"
| "setViscosities tt paramCache (phaseIdx # rest) fs =
     (let mu = FluidSystem_viscosity tt fs paramCache phaseIdx
      in setViscosities tt paramCache rest (FluidState_setViscosity fs phaseIdx mu))"

text \<open>
  \<open>update\<close>. It returns the calls it made and either the exception of the problem
  or the object after the update; the half-updated object that a throwing call leaves
  behind is not modelled.
\<close>

definition FlashVolumeVariables_update ::
  "('pc, 'mp, 'b) FlashTypes \<Rightarrow> 'b FlashVolumeVariables \<Rightarrow> 'mp ElementContext \<Rightarrow> int \<Rightarrow> int
     \<Rightarrow> ('pc, 'mp) Call list \<times> (error + 'b FlashVolumeVariables)" where
  "FlashVolumeVariables_update tt this elemCtx dofIdx timeIdx =
     (let calls = [to_ParentType_update];
          b = ParentType_update tt (bases this) elemCtx dofIdx timeIdx;
          calls = calls @ [to_updateTemperatures (fluidState this)];
          fs = updateTemperatures tt (fluidState this) elemCtx dofIdx timeIdx;
          priVars = primaryVars elemCtx dofIdx timeIdx;
          flashTolerance = FlashTolerance tt;
          flashTolerance =
            (if flashTolerance \<le> 0 then baseEpsilon elemCtx / (100 * (18 / 1000))
             else flashTolerance);
          cTotal = map (\<lambda>compIdx. priVars ! (cTot0Idx tt + compIdx)) [0..<NumComponents tt];
          paramCache = ParameterCache_default tt;
          (calls, fs, paramCache) =
            (case thermodynamicHint elemCtx dofIdx timeIdx of
               Some hint \<Rightarrow>
                 (let T = FluidState_temperature fs 0;
                      fs = FluidState_assign fs hint;
                      fs = FluidState_setTemperature fs T
                  in (calls, fs, paramCache))
             | None \<Rightarrow>
                 (let (fs', paramCache') = guessInitial tt fs paramCache cTotal
                  in (calls @ [to_guessInitial fs paramCache cTotal], fs', paramCache')));
          calls = calls @ [to_materialLawParams];
          materialParams = Problem_materialLawParams (problem elemCtx) dofIdx timeIdx;
          calls = calls @ [to_solve fs paramCache materialParams cTotal flashTolerance];
          (fs, paramCache) = solve tt fs paramCache materialParams cTotal flashTolerance;
          calls = calls @ map to_viscosity [0..<NumPhases tt];
          fs = setViscosities tt paramCache [0..<NumPhases tt] fs;
          calls = calls @ [to_relativePermeabilities materialParams fs];
          relPerm = relativePermeabilities tt (relativePermeability this) materialParams fs;
          calls = calls @ [to_porosity]
      in case Problem_porosity (problem elemCtx) dofIdx timeIdx of
           Inl e \<Rightarrow> (calls, Inl e)
         | Inr poro \<Rightarrow>
            (let calls = calls @ [to_intrinsicPermeability]
             in case Problem_intrinsicPermeability (problem elemCtx) dofIdx timeIdx of
                  Inl e \<Rightarrow> (calls, Inl e)
                | Inr K \<Rightarrow>
                   (let calls = calls @ [to_VelocityVolumeVariables_update];
                        b = VelocityVolumeVariables_update tt b elemCtx dofIdx timeIdx;
                        calls = calls @ [to_EnergyVolumeVariables_update fs paramCache];
                        (b, fs, paramCache) =
                          EnergyVolumeVariables_update tt b fs paramCache elemCtx dofIdx timeIdx;
                        calls = calls @ [to_DiffusionVolumeVariables_update fs paramCache];
                        (b, fs, paramCache) =
                          DiffusionVolumeVariables_update tt b fs paramCache elemCtx dofIdx timeIdx
                    in (calls,
                        Inr \<lparr> bases = b, fluidState = fs, porosity = poro, intrinsicPerm = K,
                              relativePermeability = relPerm \<rparr>))))"

text \<open>
  Names for the intermediate values of \<open>update\<close>: the total molar densities, the
  tolerance, the fluid state and parameter cache handed to the solver, what the solver
  returns, the fluid state after the viscosity loop, what the energy and the diffusion
  update return, and the two parts of the record of calls.
\<close>

definition update_cTotal ::
  "('pc, 'mp, 'b) FlashTypes \<Rightarrow> 'mp ElementContext \<Rightarrow> int \<Rightarrow> int \<Rightarrow> ComponentVector" where
  "update_cTotal tt elemCtx dofIdx timeIdx =
     map (\<lambda>compIdx. primaryVars elemCtx dofIdx timeIdx ! (cTot0Idx tt + compIdx))
       [0..<NumComponents tt]"

definition update_flashTolerance :: "('pc, 'mp, 'b) FlashTypes \<Rightarrow> 'mp ElementContext \<Rightarrow> Scalar" where
  "update_flashTolerance tt elemCtx =
     (if FlashTolerance tt \<le> 0 then baseEpsilon elemCtx / (100 * (18 / 1000))
      else FlashTolerance tt)"

definition update_start ::
  "('pc, 'mp, 'b) FlashTypes \<Rightarrow> 'b FlashVolumeVariables \<Rightarrow> 'mp ElementContext \<Rightarrow> int \<Rightarrow> int
     \<Rightarrow> FluidState \<times> 'pc" where
  "update_start tt this elemCtx dofIdx timeIdx =
     (case thermodynamicHint elemCtx dofIdx timeIdx of
        Some hint \<Rightarrow>
          (hint\<lparr>temperature :=
                  temperature (updateTemperatures tt (fluidState this) elemCtx dofIdx timeIdx)\<rparr>,
           ParameterCache_default tt)
      | None \<Rightarrow>
          guessInitial tt (updateTemperatures tt (fluidState this) elemCtx dofIdx timeIdx)
            (ParameterCache_default tt) (update_cTotal tt elemCtx dofIdx timeIdx))"

definition update_solved ::
  "('pc, 'mp, 'b) FlashTypes \<Rightarrow> 'b FlashVolumeVariables \<Rightarrow> 'mp ElementContext \<Rightarrow> int \<Rightarrow> int
     \<Rightarrow> FluidState \<times> 'pc" where
  "update_solved tt this elemCtx dofIdx timeIdx =
     solve tt (fst (update_start tt this elemCtx dofIdx timeIdx))
       (snd (update_start tt this elemCtx dofIdx timeIdx))
       (Problem_materialLawParams (problem elemCtx) dofIdx timeIdx)
       (update_cTotal tt elemCtx dofIdx timeIdx) (update_flashTolerance tt elemCtx)"

definition update_flashed ::
  "('pc, 'mp, 'b) FlashTypes \<Rightarrow> 'b FlashVolumeVariables \<Rightarrow> 'mp ElementContext \<Rightarrow> int \<Rightarrow> int
     \<Rightarrow> FluidState" where
  "update_flashed tt this elemCtx dofIdx timeIdx =
     setViscosities tt (snd (update_solved tt this elemCtx dofIdx timeIdx)) [0..<NumPhases tt]
       (fst (update_solved tt this elemCtx dofIdx timeIdx))"

definition update_calls_flash ::
  "('pc, 'mp, 'b) FlashTypes \<Rightarrow> 'b FlashVolumeVariables \<Rightarrow> 'mp ElementContext \<Rightarrow> int \<Rightarrow> int
     \<Rightarrow> ('pc, 'mp) Call list" where
  "update_calls_flash tt this elemCtx dofIdx timeIdx =
     [to_ParentType_update, to_updateTemperatures (fluidState this)]
     @ (case thermodynamicHint elemCtx dofIdx timeIdx of
          Some hint \<Rightarrow> []
        | None \<Rightarrow>
            [to_guessInitial (updateTemperatures tt (fluidState this) elemCtx dofIdx timeIdx)
               (ParameterCache_default tt) (update_cTotal tt elemCtx dofIdx timeIdx)])
     @ [to_materialLawParams,
        to_solve (fst (update_start tt this elemCtx dofIdx timeIdx))
          (snd (update_start tt this elemCtx dofIdx timeIdx))
          (Problem_materialLawParams (problem elemCtx) dofIdx timeIdx)
          (update_cTotal tt elemCtx dofIdx timeIdx) (update_flashTolerance tt elemCtx)]
     @ map to_viscosity [0..<NumPhases tt]
     @ [to_relativePermeabilities (Problem_materialLawParams (problem elemCtx) dofIdx timeIdx)
          (update_flashed tt this elemCtx dofIdx timeIdx),
        to_porosity]"

definition update_energy ::
  "('pc, 'mp, 'b) FlashTypes \<Rightarrow> 'b FlashVolumeVariables \<Rightarrow> 'mp ElementContext \<Rightarrow> int \<Rightarrow> int
     \<Rightarrow> 'b \<times> FluidState \<times> 'pc" where
  "update_energy tt this elemCtx dofIdx timeIdx =
     EnergyVolumeVariables_update tt
       (VelocityVolumeVariables_update tt
          (ParentType_update tt (bases this) elemCtx dofIdx timeIdx) elemCtx dofIdx timeIdx)
       (update_flashed tt this elemCtx dofIdx timeIdx)
       (snd (update_solved tt this elemCtx dofIdx timeIdx)) elemCtx dofIdx timeIdx"

definition update_diffusion ::
  "('pc, 'mp, 'b) FlashTypes \<Rightarrow> 'b FlashVolumeVariables \<Rightarrow> 'mp ElementContext \<Rightarrow> int \<Rightarrow> int
     \<Rightarrow> 'b \<times> FluidState \<times> 'pc" where
  "update_diffusion tt this elemCtx dofIdx timeIdx =
     DiffusionVolumeVariables_update tt
       (fst (update_energy tt this elemCtx dofIdx timeIdx))
       (fst (snd (update_energy tt this elemCtx dofIdx timeIdx)))
       (snd (snd (update_energy tt this elemCtx dofIdx timeIdx))) elemCtx dofIdx timeIdx"

definition update_calls_rest ::
  "('pc, 'mp, 'b) FlashTypes \<Rightarrow> 'b FlashVolumeVariables \<Rightarrow> 'mp ElementContext \<Rightarrow> int \<Rightarrow> int
     \<Rightarrow> ('pc, 'mp) Call list" where
  "update_calls_rest tt this elemCtx dofIdx timeIdx =
     [to_intrinsicPermeability, to_VelocityVolumeVariables_update,
      to_EnergyVolumeVariables_update (update_flashed tt this elemCtx dofIdx timeIdx)
        (snd (update_solved tt this elemCtx dofIdx timeIdx)),
      to_DiffusionVolumeVariables_update
        (fst (snd (update_energy tt this elemCtx dofIdx timeIdx)))
        (snd (snd (update_energy tt this elemCtx dofIdx timeIdx)))]"

definition leave_temperature ::
  "('pc, 'mp, 'b) FlashTypes \<Rightarrow> 'mp ElementContext \<Rightarrow> int \<Rightarrow> int \<Rightarrow> bool" where
  \<comment> \<open>the solver and the energy and diffusion updates return the fluid state with the
     temperature they were given\<close>
  "leave_temperature tt elemCtx dofIdx timeIdx \<longleftrightarrow>
     (\<forall>fs pc mp c tol. temperature (fst (solve tt fs pc mp c tol)) = temperature fs)
     \<and> (\<forall>b fs pc.
           temperature (fst (snd (EnergyVolumeVariables_update tt b fs pc elemCtx dofIdx timeIdx)))
           = temperature fs)
     \<and> (\<forall>b fs pc.
           temperature (fst (snd (DiffusionVolumeVariables_update tt b fs pc elemCtx dofIdx timeIdx)))
           = temperature fs)"

text \<open>
  The order of two calls in a record of calls: the first call of the one kind comes
  before the first call of the other.
\<close>

fun is_solve :: "('pc, 'mp) Call \<Rightarrow> bool" where
  "is_solve (to_solve fs pc mp c tol) = True"
| "is_solve _ = False"

fun is_relativePermeabilities :: "('pc, 'mp) Call \<Rightarrow> bool" where
  "is_relativePermeabilities (to_relativePermeabilities mp fs) = True"
| "is_relativePermeabilities _ = False"

fun is_EnergyVolumeVariables_update :: "('pc, 'mp) Call \<Rightarrow> bool" where
  "is_EnergyVolumeVariables_update (to_EnergyVolumeVariables_update fs pc) = True"
| "is_EnergyVolumeVariables_update _ = False"

fun is_DiffusionVolumeVariables_update :: "('pc, 'mp) Call \<Rightarrow> bool" where
  "is_DiffusionVolumeVariables_update (to_DiffusionVolumeVariables_update fs pc) = True"
| "is_DiffusionVolumeVariables_update _ = False"

fun firstIndex :: "('a \<Rightarrow> bool) \<Rightarrow> 'a list \<Rightarrow> nat option" where
  "firstIndex P [] = None"
| "firstIndex P (x # xs) = (if P x then Some 0 else map_option Suc (firstIndex P xs))"

definition calledBefore :: "('a \<Rightarrow> bool) \<Rightarrow> ('a \<Rightarrow> bool) \<Rightarrow> 'a list \<Rightarrow> bool" where
  "calledBefore P Q calls =
     (case firstIndex P calls of
        None \<Rightarrow> False
      | Some i \<Rightarrow> (case firstIndex Q calls of None \<Rightarrow> False | Some j \<Rightarrow> i < j))"

fun callee :: "('pc, 'mp) Call \<Rightarrow> string" where
  "callee to_ParentType_update = ''ParentType::update''"
| "callee (to_updateTemperatures fs) = ''EnergyVolumeVariables::updateTemperatures_''"
| "callee (to_guessInitial fs pc c) = ''FlashSolver::guessInitial''"
| "callee to_materialLawParams = ''problem.materialLawParams''"
| "callee (to_solve fs pc mp c tol) = ''FlashSolver::solve''"
| "callee (to_viscosity phaseIdx) = ''FluidSystem::viscosity''"
| "callee (to_relativePermeabilities mp fs) = ''MaterialLaw::relativePermeabilities''"
| "callee to_porosity = ''problem.porosity''"
| "callee to_intrinsicPermeability = ''problem.intrinsicPermeability''"
| "callee to_VelocityVolumeVariables_update = ''VelocityVolumeVariables::update_''"
| "callee (to_EnergyVolumeVariables_update fs pc) = ''EnergyVolumeVariables::update_''"
| "callee (to_DiffusionVolumeVariables_update fs pc) = ''DiffusionVolumeVariables::update_''"

text \<open>
  The accessors. \<open>relativePermeability_[phaseIdx]\<close> and the viscosity of a phase are
  array reads with no check: outside the array the C++ behaviour is undefined, and the
  model answers \<open>None\<close>.
\<close>

definition FluidState_viscosity :: "FluidState \<Rightarrow> int \<Rightarrow> Scalar option" where
  "FluidState_viscosity fs phaseIdx =
     (if 0 \<le> phaseIdx \<and> nat phaseIdx < length (viscosity fs)
      then Some (viscosity fs ! nat phaseIdx) else None)"

definition FlashVolumeVariables_fluidState :: "'b FlashVolumeVariables \<Rightarrow> FluidState" where
  "FlashVolumeVariables_fluidState this = fluidState this"

definition FlashVolumeVariables_intrinsicPermeability :: "'b FlashVolumeVariables \<Rightarrow> DimMatrix" where
  "FlashVolumeVariables_intrinsicPermeability this = intrinsicPerm this"

definition FlashVolumeVariables_relativePermeability ::
  "'b FlashVolumeVariables \<Rightarrow> int \<Rightarrow> Scalar option" where
  "FlashVolumeVariables_relativePermeability this phaseIdx =
     (if 0 \<le> phaseIdx \<and> nat phaseIdx < length (relativePermeability this)
      then Some (relativePermeability this ! nat phaseIdx) else None)"

definition FlashVolumeVariables_mobility :: "'b FlashVolumeVariables \<Rightarrow> int \<Rightarrow> Scalar option" where
  "FlashVolumeVariables_mobility this phaseIdx =
     (case FlashVolumeVariables_relativePermeability this phaseIdx of
        None \<Rightarrow> None
      | Some kr \<Rightarrow>
         (case FluidState_viscosity (FlashVolumeVariables_fluidState this) phaseIdx of
            None \<Rightarrow> None
          | Some mu \<Rightarrow> Some (kr / mu)))"

definition FlashVolumeVariables_porosity :: "'b FlashVolumeVariables \<Rightarrow> Scalar" where
  "FlashVolumeVariables_porosity this = porosity this"

text \<open>
  A call of an accessor gives the value and the object after the call.
\<close>

datatype Accessor =
    get_fluidState
  | get_intrinsicPermeability
  | get_relativePermeability int
  | get_mobility int
  | get_porosity

datatype Accessed =
    the_FluidState FluidState
  | the_DimMatrix DimMatrix
  | the_Scalar Scalar
  | outside_the_array

fun FlashVolumeVariables_access ::
  "'b FlashVolumeVariables \<Rightarrow> Accessor \<Rightarrow> Accessed \<times> 'b FlashVolumeVariables" where
  "FlashVolumeVariables_access this get_fluidState =
     (the_FluidState (FlashVolumeVariables_fluidState this), this)"
| "FlashVolumeVariables_access this get_intrinsicPermeability =
     (the_DimMatrix (FlashVolumeVariables_intrinsicPermeability this), this)"
| "FlashVolumeVariables_access this (get_relativePermeability phaseIdx) =
     (case FlashVolumeVariables_relativePermeability this phaseIdx of
        None \<Rightarrow> (outside_the_array, this)
      | Some kr \<Rightarrow> (the_Scalar kr, this))"
| "FlashVolumeVariables_access this (get_mobility phaseIdx) =
     (case FlashVolumeVariables_mobility this phaseIdx of
        None \<Rightarrow> (outside_the_array, this)
      | Some lambda \<Rightarrow> (the_Scalar lambda, this))"
| "FlashVolumeVariables_access this get_porosity =
     (the_Scalar (FlashVolumeVariables_porosity this), this)"

fun FlashVolumeVariables_accesses ::
  "'b FlashVolumeVariables \<Rightarrow> Accessor list \<Rightarrow> Accessed list \<times> 'b FlashVolumeVariables" where
  "FlashVolumeVariables_accesses this [] = ([], this)"
| "FlashVolumeVariables_accesses this (a # as) =
     (let (r, this) = FlashVolumeVariables_access this a;
          (rs, this) = FlashVolumeVariables_accesses this as
      in (r # rs, this))"

text \<open>
  A small instance: two phases and two components, a solver that writes the total
  molar densities into the composition, an energy module that sets the temperature to
  300 and the enthalpies, and a problem that does not throw.
\<close>

definition example_FlashTypes :: "(unit, unit, unit) FlashTypes" where
  "example_FlashTypes =
     \<lparr> NumPhases = 2, NumComponents = 2, cTot0Idx = 1, FlashTolerance = 0,
       ParameterCache_default = (),
       ParentType_update = (\<lambda>b elemCtx dofIdx timeIdx. b),
       updateTemperatures = (\<lambda>fs elemCtx dofIdx timeIdx. fs\<lparr>temperature := 300\<rparr>),
       guessInitial = (\<lambda>fs pc cTotal. (fs\<lparr>moleFraction := [[1, 0], [0, 1]]\<rparr>, pc)),
       solve = (\<lambda>fs pc mp cTotal tol. (fs\<lparr>moleFraction := [cTotal, cTotal]\<rparr>, pc)),
       FluidSystem_viscosity = (\<lambda>fs pc phaseIdx. 1 / 1000),
       relativePermeabilities = (\<lambda>old mp fs. [1, 0]),
       VelocityVolumeVariables_update = (\<lambda>b elemCtx dofIdx timeIdx. b),
       EnergyVolumeVariables_update =
         (\<lambda>b fs pc elemCtx dofIdx timeIdx. (b, fs\<lparr>enthalpy := [1, 2]\<rparr>, pc)),
       DiffusionVolumeVariables_update = (\<lambda>b fs pc elemCtx dofIdx timeIdx. (b, fs, pc)) \<rparr>"

definition example_FluidState :: "Scalar \<Rightarrow> FluidState" where
  "example_FluidState T =
     \<lparr> temperature = T, pressure = [100000, 100000], saturation = [1, 0],
       moleFraction = [[1, 0], [1, 0]], density = [1000, 1], viscosity = [0, 0],
       enthalpy = [0, 0] \<rparr>"

definition example_ElementContext :: "FluidState option \<Rightarrow> unit ElementContext" where
  "example_ElementContext hint =
     \<lparr> primaryVars = (\<lambda>dofIdx timeIdx. [100000, 40, 2]),
       problem = \<lparr> Problem_materialLawParams = (\<lambda>dofIdx timeIdx. ()),
                   Problem_porosity = (\<lambda>dofIdx timeIdx. Inr 0.3),
                   Problem_intrinsicPermeability = (\<lambda>dofIdx timeIdx. Inr [[1]]) \<rparr>,
       baseEpsilon = 18 / 10,
       thermodynamicHint = (\<lambda>dofIdx timeIdx. hint) \<rparr>"

definition example_FlashVolumeVariables :: "unit FlashVolumeVariables" where
  "example_FlashVolumeVariables =
     \<lparr> bases = (), fluidState = example_FluidState 280, porosity = 0, intrinsicPerm = [[0]],
       relativePermeability = [0, 0] \<rparr>"


chapter \<open>Properties\<close>

section \<open>InjectionSoil and InjectionProblem\<close>

lemma setEntry_diag_step:
  assumes "n < dimG"
  shows "setEntry (map (\<lambda>i. map (\<lambda>j. if i = j \<and> i < n then d else 0) [0..<dimG]) [0..<dimG]) n n d
         = map (\<lambda>i. map (\<lambda>j. if i = j \<and> i < Suc n then d else 0) [0..<dimG]) [0..<dimG]"
  using assms
  by (auto simp: setEntry_def list_eq_iff_nth_eq nth_list_update less_Suc_eq)

lemma zeroMatrix_as_map:
  "zeroMatrix dimG = map (\<lambda>i. map (\<lambda>j. if i = j \<and> i < 0 then d else 0) [0..<dimG]) [0..<dimG]"
  by (simp add: zeroMatrix_def list_eq_iff_nth_eq)

lemma diag_loop:
  assumes "n \<le> dimG"
  shows "fold (\<lambda>i (lo, hi). (setEntry lo i i a, setEntry hi i i b)) [0..<n]
           (zeroMatrix dimG, zeroMatrix dimG)
         = (map (\<lambda>i. map (\<lambda>j. if i = j \<and> i < n then a else 0) [0..<dimG]) [0..<dimG],
            map (\<lambda>i. map (\<lambda>j. if i = j \<and> i < n then b else 0) [0..<dimG]) [0..<dimG])"
  using assms
proof (induction n)
  case 0
  show ?case
    using zeroMatrix_as_map [of dimG a] zeroMatrix_as_map [of dimG b] by simp
next
  case (Suc n)
  then have "n < dimG" by simp
  with Suc show ?case
    by (simp add: setEntry_diag_step)
qed

lemma InjectionSoil_ctor_fields:
  "InjectionSoil_ctor dimG =
     \<lparr> lowK = isotropic dimG (5 / 10 ^ 14), highK = isotropic dimG (1 / 10 ^ 12), layerBottom = 22 \<rparr>"
proof -
  have "\<And>a. map (\<lambda>i. map (\<lambda>j. if i = j \<and> i < dimG then a else 0) [0..<dimG]) [0..<dimG]
            = isotropic dimG a"
    by (simp add: isotropic_def)
  then show ?thesis
    by (simp add: InjectionSoil_ctor_def diag_loop)
qed

text \<open>
  C5. The accessors of a constructed \<open>InjectionSoil\<close> depend on the position only:
  the porosity is 0.3 everywhere, \<open>K\<close> is the isotropic tensor with diagonal 1e-12
  where \<open>x[1] < 22\<close> and the one with diagonal 5e-14 elsewhere, and a call of \<open>K\<close>
  leaves the soil as the constructor made it.
\<close>

theorem InjectionSoil_accessors:
  assumes "length x = dimG" and "1 < dimG"
  shows "InjectionSoil_porosity (InjectionSoil_ctor dimG) x e xi = 0.3
       \<and> fst (InjectionSoil_K (InjectionSoil_ctor dimG) x e xi)
           = (if x ! 1 < 22 then isotropic dimG (1 / 10 ^ 12) else isotropic dimG (5 / 10 ^ 14))
       \<and> snd (InjectionSoil_K (InjectionSoil_ctor dimG) x e xi) = InjectionSoil_ctor dimG"
  by (simp add: InjectionSoil_porosity_def InjectionSoil_K_def InjectionSoil_ctor_fields)

theorem InjectionSoil_accessors_witness:
  "InjectionSoil_porosity (InjectionSoil_ctor 2) [10, 30] () [0, 0] = 0.3
   \<and> fst (InjectionSoil_K (InjectionSoil_ctor 2) [10, 30] () [0, 0])
       = [[5 / 10 ^ 14, 0], [0, 5 / 10 ^ 14]]
   \<and> fst (InjectionSoil_K (InjectionSoil_ctor 2) [10, 5] () [0, 0])
       = [[1 / 10 ^ 12, 0], [0, 1 / 10 ^ 12]]
   \<and> snd (InjectionSoil_K (InjectionSoil_ctor 2) [10, 30] () [0, 0]) = InjectionSoil_ctor 2"
proof -
  have two: "[0..<2] = [0, Suc 0]"
    by (simp add: upt_rec)
  have iso: "\<And>d. isotropic 2 d = [[d, 0], [0, d]]"
    by (simp add: isotropic_def two)
  show ?thesis
    using InjectionSoil_accessors [of "[10, 30]" 2 "()" "[0, 0]"]
          InjectionSoil_accessors [of "[10, 5]" 2 "()" "[0, 0]"]
    by (simp add: iso)
qed

text \<open>
  C9. At every position the initial values are the Dirichlet values: both vectors
  hold \<open>1e5 - 1000 * gravity_[1] * (depthBOR_ - x[1])\<close> at \<open>pWIdx\<close> and \<open>1e-6\<close> at
  \<open>switchIdx\<close>, whatever the entity arguments and whatever the uninitialised vector
  of \<open>initial\<close> held before.
\<close>

theorem InjectionProblem_initial_eq_g:
  assumes "length uninit = InjectionProblem_m"
  shows "InjectionProblem_initial uninit p x e xi = InjectionProblem_g p x e' intersectionIt xi'
       \<and> InjectionProblem_initial uninit p x e xi ! pWIdx
           = 100000 - 1000 * InjectionProblem.gravity p ! 1 * (depthBOR p - x ! 1)
       \<and> InjectionProblem_initial uninit p x e xi ! switchIdx = 1 / 10 ^ 6
       \<and> length (InjectionProblem_initial uninit p x e xi) = 2"
proof -
  obtain a b where u: "uninit = [a, b]"
    using assms
    by (cases uninit; cases "tl uninit") (auto simp: InjectionProblem_m_def)
  show ?thesis
    by (simp add: u InjectionProblem_initial_def InjectionProblem_g_def
                  InjectionProblem_m_def pWIdx_def switchIdx_def numeral_2_eq_2)
qed

theorem InjectionProblem_initial_eq_g_witness:
  "InjectionProblem_initial [7, 8] (InjectionProblem_ctor [3, 4] [0, 0] [60, 40] 800) [5, 10] () [0, 0]
     = InjectionProblem_g (InjectionProblem_ctor [3, 4] [0, 0] [60, 40] 800) [5, 10] () () [1, 1]
   \<and> InjectionProblem_initial [7, 8] (InjectionProblem_ctor [3, 4] [0, 0] [60, 40] 800) [5, 10] () [0, 0]
     = [100000 + 1000 * 9.81 * 790, 1 / 10 ^ 6]"
proof -
  have len: "length [7, 8 :: real] = InjectionProblem_m"
    by (simp add: InjectionProblem_m_def)
  have "InjectionProblem_g (InjectionProblem_ctor [3, 4] [0, 0] [60, 40] 800) [5, 10] () () [1, 1]
          = [100000 + 1000 * 9.81 * 790, 1 / 10 ^ 6]"
    by (simp add: InjectionProblem_g_def InjectionProblem_ctor_def InjectionProblem_m_def
                  pWIdx_def switchIdx_def numeral_2_eq_2)
  then show ?thesis
    using InjectionProblem_initial_eq_g
            [OF len, of "InjectionProblem_ctor [3, 4] [0, 0] [60, 40] 800" "[5, 10]" "()" "[0, 0]"
               "()" "()" "[1, 1]"]
    by simp
qed

section \<open>MultiPhaseBaseProblem\<close>

text \<open>
  C6. On the base class the accessors \<open>intrinsicPermeability\<close>, \<open>porosity\<close>,
  \<open>heatCapacitySolid\<close>, \<open>heatConductionParams\<close>, \<open>tortuosity\<close>, \<open>dispersivity\<close>
  and \<open>temperature()\<close> throw a \<open>std::logic_error\<close> on every input, and
  \<open>materialLawParams\<close> throws nothing and returns the default-constructed dummy.
\<close>

theorem MultiPhaseBaseProblem_accessors_throw:
  "MultiPhaseBaseProblem_intrinsicPermeability p1 c1 i1 t1
     = Inl (logic_error ''Not implemented: Problem::intrinsicPermeability()'')
   \<and> MultiPhaseBaseProblem_porosity p2 c2 i2 t2
     = Inl (logic_error ''Not implemented: Problem::porosity()'')
   \<and> MultiPhaseBaseProblem_heatCapacitySolid p3 c3 i3 t3
     = Inl (logic_error ''Not implemented: Problem::heatCapacitySolid()'')
   \<and> MultiPhaseBaseProblem_heatConductionParams p4 c4 i4 t4
     = Inl (logic_error ''Not implemented: Problem::heatConductionParams()'')
   \<and> MultiPhaseBaseProblem_tortuosity p5 c5 i5 t5
     = Inl (logic_error ''Not implemented: Problem::tortuosity()'')
   \<and> MultiPhaseBaseProblem_dispersivity p6 c6 i6 t6
     = Inl (logic_error ''Not implemented: Problem::dispersivity()'')
   \<and> MultiPhaseBaseProblem_temperature p7
     = Inl (logic_error
         ''Not implemented:temperature() method not implemented by the actual problem'')
   \<and> MultiPhaseBaseProblem_materialLawParams cfg p8 c8 i8 t8
     = Inr (MaterialLawParams_default cfg)"
  unfolding MultiPhaseBaseProblem_intrinsicPermeability_def MultiPhaseBaseProblem_porosity_def
    MultiPhaseBaseProblem_heatCapacitySolid_def MultiPhaseBaseProblem_heatConductionParams_def
    MultiPhaseBaseProblem_tortuosity_def MultiPhaseBaseProblem_dispersivity_def
    MultiPhaseBaseProblem_temperature_def MultiPhaseBaseProblem_materialLawParams_def
  by simp

lemma init_gravity:
  assumes "length (gravity p) = dimWorld cfg" and "0 < dimWorld cfg"
  shows "gravity (MultiPhaseBaseProblem_init cfg p)
         = (if EnableGravity cfg then replicate (dimWorld cfg - 1) 0 @ [- 9.81]
            else replicate (dimWorld cfg) 0)"
proof -
  obtain n where n: "dimWorld cfg = Suc n"
    using assms(2) by (cases "dimWorld cfg") auto
  have zeros: "map (\<lambda>_. 0) (gravity p) = replicate (Suc n) (0::real)"
    using assms(1) n by (simp add: map_replicate_const)
  have "replicate (Suc n) (0::real) = replicate n 0 @ [0]"
    by (simp add: replicate_append_same)
  then have "(replicate (Suc n) (0::real))[n := - 9.81] = replicate n 0 @ [- 9.81]"
    using list_update_length [of "replicate n (0::real)" 0 "[]" "- 9.81"] by simp
  then show ?thesis
    by (simp add: MultiPhaseBaseProblem_init_def Let_def zeros n del: replicate_Suc)
qed

lemma markForGridAdaptation_gravity:
  "gravity (snd (MultiPhaseBaseProblem_markForGridAdaptation cfg p)) = gravity p"
  by (simp add: MultiPhaseBaseProblem_markForGridAdaptation_def Let_def split: prod.split)

lemma call_gravity_unchanged:
  "gravity (snd (MultiPhaseBaseProblem_call cfg c p)) = gravity p"
  using markForGridAdaptation_gravity [of cfg p]
  by (cases c) (auto split: prod.split)

lemma calls_gravity_unchanged:
  "gravity (snd (MultiPhaseBaseProblem_calls cfg cs p
                  :: (error + ('mp, 'hp) Returned) list \<times> MultiPhaseBaseProblem))
   = gravity p"
proof (induction cs arbitrary: p)
  case Nil
  show ?case by simp
next
  case (Cons c cs)
  have "snd (MultiPhaseBaseProblem_calls cfg (c # cs) p
              :: (error + ('mp, 'hp) Returned) list \<times> MultiPhaseBaseProblem)
        = snd (MultiPhaseBaseProblem_calls cfg cs
                (snd (MultiPhaseBaseProblem_call cfg c p
                       :: (error + ('mp, 'hp) Returned) \<times> MultiPhaseBaseProblem))
              :: (error + ('mp, 'hp) Returned) list \<times> MultiPhaseBaseProblem)"
    by (simp add: case_prod_unfold Let_def)
  then show ?case
    by (simp only: Cons.IH call_gravity_unchanged)
qed

text \<open>
  C10. After construction \<open>gravity()\<close> returns the vector whose components are zero,
  except that with \<open>EnableGravity\<close> the last one is -9.81; and whatever public
  methods are called on the object afterwards, \<open>gravity()\<close> returns the same vector.
\<close>

theorem MultiPhaseBaseProblem_gravity_after_ctor:
  assumes "length uninit = dimWorld cfg" and "0 < dimWorld cfg"
  shows "MultiPhaseBaseProblem_gravity (MultiPhaseBaseProblem_ctor cfg uninit sim)
           = Inr (if EnableGravity cfg then replicate (dimWorld cfg - 1) 0 @ [- 9.81]
                  else replicate (dimWorld cfg) 0)
       \<and> MultiPhaseBaseProblem_gravity
             (snd (MultiPhaseBaseProblem_calls cfg cs (MultiPhaseBaseProblem_ctor cfg uninit sim)
                   :: (error + ('mp, 'hp) Returned) list \<times> MultiPhaseBaseProblem))
           = MultiPhaseBaseProblem_gravity (MultiPhaseBaseProblem_ctor cfg uninit sim)"
  using assms
  by (simp add: MultiPhaseBaseProblem_gravity_def MultiPhaseBaseProblem_ctor_def
                init_gravity calls_gravity_unchanged)

theorem MultiPhaseBaseProblem_gravity_after_ctor_witness:
  "MultiPhaseBaseProblem_gravity
     (MultiPhaseBaseProblem_ctor
        \<lparr> numPhases = 2, dimWorld = 3, EnableGravity = True, MaterialLawParams_default = (),
          harmonicMean = (\<lambda>x y. 0), commSum = (\<lambda>n. n) \<rparr>
        [5, 6, 7]
        \<lparr> gridElements = [\<lparr> level = 0, dofSaturation = [[0.1, 0.9], [0.8, 0.2]] \<rparr>],
          gridMark = [0] \<rparr>)
     = Inr [0, 0, - 9.81]
   \<and> MultiPhaseBaseProblem_gravity
       (snd (MultiPhaseBaseProblem_calls
          \<lparr> numPhases = 2, dimWorld = 3, EnableGravity = True, MaterialLawParams_default = (),
            harmonicMean = (\<lambda>x y. 0), commSum = (\<lambda>n. n) \<rparr>
          [call_markForGridAdaptation, call_temperature, call_gravity]
          (MultiPhaseBaseProblem_ctor
             \<lparr> numPhases = 2, dimWorld = 3, EnableGravity = True, MaterialLawParams_default = (),
               harmonicMean = (\<lambda>x y. 0), commSum = (\<lambda>n. n) \<rparr>
             [5, 6, 7]
             \<lparr> gridElements = [\<lparr> level = 0, dofSaturation = [[0.1, 0.9], [0.8, 0.2]] \<rparr>],
               gridMark = [0] \<rparr>)
        :: (error + (unit, unit) Returned) list \<times> MultiPhaseBaseProblem))
     = Inr [0, 0, - 9.81]"
proof -
  let ?cfg = "\<lparr> numPhases = 2, dimWorld = 3, EnableGravity = True, MaterialLawParams_default = (),
                harmonicMean = (\<lambda>x y. 0 :: real), commSum = (\<lambda>n. n :: int) \<rparr>"
  let ?sim = "\<lparr> gridElements = [\<lparr> level = 0, dofSaturation = [[0.1, 0.9], [0.8, 0.2]] \<rparr>],
                gridMark = [0] \<rparr>"
  have len: "length [5, 6, 7 :: real] = dimWorld ?cfg"
    by simp
  have pos: "0 < dimWorld ?cfg"
    by simp
  have val: "(if EnableGravity ?cfg then replicate (dimWorld ?cfg - 1) 0 @ [- 9.81]
              else replicate (dimWorld ?cfg) 0) = [0, 0, - 9.81 :: real]"
    by (simp add: numeral_2_eq_2)
  have inst: "MultiPhaseBaseProblem_gravity (MultiPhaseBaseProblem_ctor ?cfg [5, 6, 7] ?sim)
                = Inr [0, 0, - 9.81]
              \<and> MultiPhaseBaseProblem_gravity
                  (snd (MultiPhaseBaseProblem_calls ?cfg
                          [call_markForGridAdaptation, call_temperature, call_gravity]
                          (MultiPhaseBaseProblem_ctor ?cfg [5, 6, 7] ?sim)
                        :: (error + (unit, unit) Returned) list \<times> MultiPhaseBaseProblem))
                = MultiPhaseBaseProblem_gravity (MultiPhaseBaseProblem_ctor ?cfg [5, 6, 7] ?sim)"
    using MultiPhaseBaseProblem_gravity_after_ctor
            [OF len pos,
             where sim = ?sim
               and cs = "[call_markForGridAdaptation, call_temperature, call_gravity]"
               and 'hp = unit]
    unfolding val .
  then show ?thesis
    by (elim conjE) (simp only:)
qed


section \<open>VtkBlackOilModule\<close>

lemma fold_update_length:
  "length (fold (\<lambda>d b. b[g d := f d]) ds b) = length b"
  by (induction ds arbitrary: b) simp_all

lemma fold_update_other:
  "i \<notin> g ` set ds \<Longrightarrow> fold (\<lambda>d b. b[g d := f d]) ds b ! i = b ! i"
  by (induction ds arbitrary: b) auto

lemma fold_update_nth:
  assumes "distinct (map g ds)" and "d \<in> set ds" and "g d < length b"
  shows "fold (\<lambda>d b. b[g d := f d]) ds b ! g d = f d"
  using assms
proof (induction ds arbitrary: b)
  case Nil
  then show ?case by simp
next
  case (Cons x xs)
  show ?case
  proof (cases "d = x")
    case True
    have "g x \<notin> g ` set xs"
      using Cons.prems(1) by simp
    then have "fold (\<lambda>d b. b[g d := f d]) xs (b[g x := f x]) ! g x = (b[g x := f x]) ! g x"
      by (rule fold_update_other)
    then show ?thesis
      using True Cons.prems(3) by simp
  next
    case False
    then have "d \<in> set xs"
      using Cons.prems(2) by simp
    moreover have "distinct (map g xs)"
      using Cons.prems(1) by simp
    moreover have "g d < length (b[g x := f x])"
      using Cons.prems(3) by simp
    ultimately show ?thesis
      using Cons.IH [of "b[g x := f x]"] by simp
  qed
qed

lemma processDof_gasDissolutionFactor:
  "gasDissolutionFactor (processDof prm fsys dof m)
   = (if VtkWriteGasDissolutionFactor prm
      then (gasDissolutionFactor m)[globalSpaceIndex dof := R_s fsys dof]
      else gasDissolutionFactor m)"
  by (simp add: processDof_def R_s_def Let_def gasDissolutionFactorOutput_def)

lemma processElement_gasDissolutionFactor:
  "gasDissolutionFactor (VtkBlackOilModule_processElement prm fsys elemCtx m)
   = (if VtkWriteGasDissolutionFactor prm
      then fold (\<lambda>dof b. b[globalSpaceIndex dof := R_s fsys dof]) elemCtx (gasDissolutionFactor m)
      else gasDissolutionFactor m)"
  unfolding VtkBlackOilModule_processElement_def
  by (induction elemCtx arbitrary: m) (simp_all add: processDof_gasDissolutionFactor)

lemma allocBuffers_gasDissolutionFactor:
  "gasDissolutionFactor (VtkBlackOilModule_allocBuffers resizeScalarBuffer prm m)
   = (if VtkWriteGasDissolutionFactor prm then resizeScalarBuffer (gasDissolutionFactor m)
      else gasDissolutionFactor m)"
  by (simp add: VtkBlackOilModule_allocBuffers_def Let_def gasDissolutionFactorOutput_def)

lemma commitBuffers_R_s:
  "namedBuffers ''R_s'' (VtkBlackOilModule_commitBuffers prm m w)
   = namedBuffers ''R_s'' w
     @ (if isVtkMultiWriter w \<and> VtkWriteGasDissolutionFactor prm
        then [gasDissolutionFactor m] else [])"
  by (simp add: VtkBlackOilModule_commitBuffers_def namedBuffers_def commitScalarBuffer_def
                Let_def gasDissolutionFactorOutput_def)





section \<open>Stokes2cniModel\<close>

lemma vertexStep_fields:
  "pNField (snd (vertexStep tt sol elem g k (vv, f)))
     = (pNField f)[vertexMapper_map elem ! k :=
          volVars_pressure tt (volVars_update tt vv (sol ! (vertexMapper_map elem ! k)) elem g k)]"
  "delPField (snd (vertexStep tt sol elem g k (vv, f)))
     = (delPField f)[vertexMapper_map elem ! k :=
          volVars_pressure tt (volVars_update tt vv (sol ! (vertexMapper_map elem ! k)) elem g k)
            - 100000]"
  by (simp_all add: vertexStep_def Let_def)


lemma vertexStep_inv:
  assumes "pressureFieldsOk Q S n f"
      and "vertexMapper_map e ! k < n"
      and "\<And>vv. Q (vertexMapper_map e ! k)
             (volVars_pressure tt (volVars_update tt vv (sol ! (vertexMapper_map e ! k)) e g k))"
  shows "pressureFieldsOk Q (insert (vertexMapper_map e ! k) S) n
           (snd (vertexStep tt sol e g k (vv, f)))"
  using assms
  unfolding pressureFieldsOk_def vertexStep_fields
  by (auto simp: nth_list_update)

lemma vertexLoop_inv:
  assumes "pressureFieldsOk Q S n f"
      and "\<forall>k \<in> set ks. vertexMapper_map e ! k < n"
      and "\<And>vv k. k \<in> set ks \<Longrightarrow> Q (vertexMapper_map e ! k)
             (volVars_pressure tt (volVars_update tt vv (sol ! (vertexMapper_map e ! k)) e g k))"
  shows "pressureFieldsOk Q (S \<union> (\<lambda>k. vertexMapper_map e ! k) ` set ks) n
           (snd (fold (vertexStep tt sol e g) ks (vv, f)))"
  using assms
proof (induction ks arbitrary: S vv f)
  case Nil
  then show ?case by simp
next
  case (Cons k ks)
  obtain vv' f' where step: "vertexStep tt sol e g k (vv, f) = (vv', f')"
    by (cases "vertexStep tt sol e g k (vv, f)")
  have "pressureFieldsOk Q (insert (vertexMapper_map e ! k) S) n
          (snd (vertexStep tt sol e g k (vv, f)))"
    using Cons.prems by (intro vertexStep_inv) auto
  then have "pressureFieldsOk Q (insert (vertexMapper_map e ! k) S) n f'"
    by (simp add: step)
  then have "pressureFieldsOk Q
               (insert (vertexMapper_map e ! k) S \<union> (\<lambda>k. vertexMapper_map e ! k) ` set ks) n
               (snd (fold (vertexStep tt sol e g) ks (vv', f')))"
    using Cons.prems by (intro Cons.IH) auto
  then show ?case
    by (simp add: step)
qed

lemma elementStep_inv:
  assumes "pressureFieldsOk (fromVolVars tt gridView sol) S n f"
      and "e \<in> set (elements gridView)"
      and "\<forall>v \<in> set (vertexMapper_map e). v < n"
  shows "pressureFieldsOk (fromVolVars tt gridView sol) (S \<union> set (vertexMapper_map e)) n
           (snd (snd (elementStep tt gridView sol e (g, vv, f))))"
proof -
  let ?f = "f\<lparr>rankField := (rankField f)[elementMapper_map e := real_of_int (comm_rank gridView)]\<rparr>"
  let ?g = "fvElemGeom_update tt g e"
  have f: "pressureFieldsOk (fromVolVars tt gridView sol) S n ?f"
    using assms(1) by (simp add: pressureFieldsOk_def)
  have img: "(\<lambda>k. vertexMapper_map e ! k) ` set [0..<length (vertexMapper_map e)]
             = set (vertexMapper_map e)"
    using map_nth [of "vertexMapper_map e"] set_map [of "\<lambda>k. vertexMapper_map e ! k"]
    by metis
  have "pressureFieldsOk (fromVolVars tt gridView sol)
          (S \<union> (\<lambda>k. vertexMapper_map e ! k) ` set [0..<length (vertexMapper_map e)]) n
          (snd (fold (vertexStep tt sol e ?g) [0..<length (vertexMapper_map e)] (vv, ?f)))"
  proof (rule vertexLoop_inv [OF f])
    show "\<forall>k \<in> set [0..<length (vertexMapper_map e)]. vertexMapper_map e ! k < n"
      using assms(3) by simp
  next
    fix vv' k
    assume "k \<in> set [0..<length (vertexMapper_map e)]"
    then have "k < length (vertexMapper_map e)"
      by simp
    then show "fromVolVars tt gridView sol (vertexMapper_map e ! k)
                 (volVars_pressure tt
                    (volVars_update tt vv' (sol ! (vertexMapper_map e ! k)) e ?g k))"
      unfolding fromVolVars_def using assms(2) by blast
  qed
  then have "pressureFieldsOk (fromVolVars tt gridView sol) (S \<union> set (vertexMapper_map e)) n
               (snd (fold (vertexStep tt sol e ?g) [0..<length (vertexMapper_map e)] (vv, ?f)))"
    by (simp only: img)
  then show ?thesis
    by (simp add: elementStep_def Let_def case_prod_unfold)
qed

lemma elementLoop_inv:
  assumes "pressureFieldsOk (fromVolVars tt gridView sol) S n f"
      and "set es \<subseteq> set (elements gridView)"
      and "\<forall>e \<in> set es. \<forall>v \<in> set (vertexMapper_map e). v < n"
  shows "pressureFieldsOk (fromVolVars tt gridView sol)
           (S \<union> (\<Union>e \<in> set es. set (vertexMapper_map e))) n
           (snd (snd (fold (elementStep tt gridView sol) es (g, vv, f))))"
  using assms
proof (induction es arbitrary: S g vv f)
  case Nil
  then show ?case by simp
next
  case (Cons e es)
  obtain g' vv' f' where step: "elementStep tt gridView sol e (g, vv, f) = (g', vv', f')"
    by (cases "elementStep tt gridView sol e (g, vv, f)")
  have "pressureFieldsOk (fromVolVars tt gridView sol) (S \<union> set (vertexMapper_map e)) n
          (snd (snd (elementStep tt gridView sol e (g, vv, f))))"
    using Cons.prems by (intro elementStep_inv) auto
  then have "pressureFieldsOk (fromVolVars tt gridView sol) (S \<union> set (vertexMapper_map e)) n f'"
    by (simp add: step)
  then have "pressureFieldsOk (fromVolVars tt gridView sol)
               (S \<union> set (vertexMapper_map e) \<union> (\<Union>e \<in> set es. set (vertexMapper_map e))) n
               (snd (snd (fold (elementStep tt gridView sol) es (g', vv', f'))))"
    using Cons.prems by (intro Cons.IH) auto
  then show ?case
    by (simp add: step Un_assoc)
qed

lemma addOutputVtkFields_attached:
  "attached ''pg'' (Stokes2cniModel_addOutputVtkFields tt gridView dimG uninit g vv sol writer)
     = attached ''pg'' writer
       @ [ScalarData (pNField (snd (snd (fold (elementStep tt gridView sol) (elements gridView)
                                           (g, vv, uninit)))))]"
  "attached ''delP'' (Stokes2cniModel_addOutputVtkFields tt gridView dimG uninit g vv sol writer)
     = attached ''delP'' writer
       @ [ScalarData (delPField (snd (snd (fold (elementStep tt gridView sol) (elements gridView)
                                             (g, vv, uninit)))))]"
  by (simp_all add: Stokes2cniModel_addOutputVtkFields_def attached_def attachVertexData_def
                    Let_def case_prod_unfold)

text \<open>
  C8. Let every vertex index of an element lie below \<open>size(dim)\<close>, the length of the
  buffers and of the solution. Then for every vertex of an element of the grid view,
  the value attached as \<open>delP\<close> is the value attached as \<open>pg\<close> minus 1e5, and the
  \<open>pg\<close> value is the pressure of volume variables updated from the solution at that
  vertex, in an element that has the vertex.
\<close>

theorem Stokes2cniModel_delP_pg:
  assumes "length (pNField uninit) = size_vertices gridView"
      and "length (delPField uninit) = size_vertices gridView"
      and "\<forall>e \<in> set (elements gridView). \<forall>v \<in> set (vertexMapper_map e). v < size_vertices gridView"
      and "length sol = size_vertices gridView"
      and "elem \<in> set (elements gridView)"
      and "v \<in> set (vertexMapper_map elem)"
  shows "\<exists>pg delP.
           attached ''pg''
             (Stokes2cniModel_addOutputVtkFields tt gridView dimG uninit fvElemGeom volVars sol writer)
             = attached ''pg'' writer @ [ScalarData pg]
         \<and> attached ''delP''
             (Stokes2cniModel_addOutputVtkFields tt gridView dimG uninit fvElemGeom volVars sol writer)
             = attached ''delP'' writer @ [ScalarData delP]
         \<and> delP ! v = pg ! v - 100000
         \<and> (\<exists>volVars' fvElemGeom' elem' vertexIdx.
               elem' \<in> set (elements gridView) \<and> vertexIdx < length (vertexMapper_map elem')
               \<and> vertexMapper_map elem' ! vertexIdx = v
               \<and> pg ! v = volVars_pressure tt
                    (volVars_update tt volVars' (sol ! v) elem' fvElemGeom' vertexIdx))"
proof -
  let ?f = "snd (snd (fold (elementStep tt gridView sol) (elements gridView)
                        (fvElemGeom, volVars, uninit)))"
  have "pressureFieldsOk (fromVolVars tt gridView sol) {} (size_vertices gridView) uninit"
    using assms(1,2) by (simp add: pressureFieldsOk_def)
  then have "pressureFieldsOk (fromVolVars tt gridView sol)
               ({} \<union> (\<Union>e \<in> set (elements gridView). set (vertexMapper_map e)))
               (size_vertices gridView) ?f"
    using assms(3) by (intro elementLoop_inv) auto
  moreover have "v \<in> (\<Union>e \<in> set (elements gridView). set (vertexMapper_map e))"
    using assms(5,6) by blast
  ultimately have "delPField ?f ! v = pNField ?f ! v - 100000"
    and "fromVolVars tt gridView sol v (pNField ?f ! v)"
    by (auto simp: pressureFieldsOk_def)
  then show ?thesis
    unfolding fromVolVars_def addOutputVtkFields_attached by blast
qed


theorem Stokes2cniModel_delP_pg_witness:
  "let tt = \<lparr> fvElemGeom_update = (\<lambda>g e. ()),
               volVars_update = (\<lambda>vv priVars e g k. priVars),
               volVars_pressure = (\<lambda>vv. vv ! 0),
               volVars_massFraction = (\<lambda>vv. 0), volVars_temperature = (\<lambda>vv. 283),
               volVars_density = (\<lambda>vv. 1), volVars_viscosity = (\<lambda>vv. 1),
               volVars_enthalpy = (\<lambda>vv. 0), volVars_velocity = (\<lambda>vv. [0, 0]) \<rparr>;
       gridView = \<lparr> size_vertices = 3, size_elements = 2,
                     elements = [\<lparr> elementMapper_map = 0, vertexMapper_map = [0, 1] \<rparr>,
                                 \<lparr> elementMapper_map = 1, vertexMapper_map = [1, 2] \<rparr>],
                     comm_rank = 0 \<rparr>;
       uninit = \<lparr> pNField = [7, 7, 7], delPField = [8, 8, 8], XwField = [9, 9, 9],
                   TField = [9, 9, 9], rhoField = [9, 9, 9], muField = [9, 9, 9],
                   hField = [9, 9, 9], velocityField = [[], [], []], rankField = [9, 9] \<rparr>;
       writer = Stokes2cniModel_addOutputVtkFields tt gridView 2 uninit () []
                  [[101000], [102000], [103000]] \<lparr> vertexData = [] \<rparr>
   in attached ''pg'' writer = [ScalarData [101000, 102000, 103000]]
    \<and> attached ''delP'' writer = [ScalarData [1000, 2000, 3000]]
    \<and> (\<exists>pg delP. attached ''pg'' writer = [ScalarData pg]
          \<and> attached ''delP'' writer = [ScalarData delP]
          \<and> delP ! 1 = pg ! 1 - 100000)"
proof -
  let ?tt = "\<lparr> fvElemGeom_update = (\<lambda>g e. ()),
               volVars_update = (\<lambda>vv priVars e g k. priVars),
               volVars_pressure = (\<lambda>vv. vv ! 0),
               volVars_massFraction = (\<lambda>vv. 0), volVars_temperature = (\<lambda>vv. 283),
               volVars_density = (\<lambda>vv. 1), volVars_viscosity = (\<lambda>vv. 1),
               volVars_enthalpy = (\<lambda>vv. 0), volVars_velocity = (\<lambda>vv. [0, 0]) \<rparr>
             :: (Scalar list, unit) Stokes2cniTypes"
  let ?gridView = "\<lparr> size_vertices = 3, size_elements = 2,
                     elements = [\<lparr> elementMapper_map = 0, vertexMapper_map = [0, 1] \<rparr>,
                                 \<lparr> elementMapper_map = 1, vertexMapper_map = [1, 2] \<rparr>],
                     comm_rank = 0 \<rparr>"
  let ?uninit = "\<lparr> pNField = [7, 7, 7], delPField = [8, 8, 8], XwField = [9, 9, 9],
                   TField = [9, 9, 9], rhoField = [9, 9, 9], muField = [9, 9, 9],
                   hField = [9, 9, 9], velocityField = [[], [], []], rankField = [9, 9] \<rparr>"
  let ?writer = "Stokes2cniModel_addOutputVtkFields ?tt ?gridView 2 ?uninit () []
                   [[101000], [102000], [103000]] \<lparr> vertexData = [] \<rparr>"
  have run: "attached ''pg'' ?writer = [ScalarData [101000, 102000, 103000]]
           \<and> attached ''delP'' ?writer = [ScalarData [1000, 2000, 3000]]"
    by (simp add: Stokes2cniModel_addOutputVtkFields_def elementStep_def vertexStep_def
                  attached_def attachVertexData_def upt_rec)
  have "\<exists>pg delP. attached ''pg'' ?writer = attached ''pg'' \<lparr> vertexData = [] \<rparr> @ [ScalarData pg]
          \<and> attached ''delP'' ?writer = attached ''delP'' \<lparr> vertexData = [] \<rparr> @ [ScalarData delP]
          \<and> delP ! 1 = pg ! 1 - 100000
          \<and> (\<exists>volVars' fvElemGeom' elem' vertexIdx.
               elem' \<in> set (elements ?gridView) \<and> vertexIdx < length (vertexMapper_map elem')
               \<and> vertexMapper_map elem' ! vertexIdx = 1
               \<and> pg ! 1 = volVars_pressure ?tt
                    (volVars_update ?tt volVars' ([[101000], [102000], [103000]] ! 1) elem'
                       fvElemGeom' vertexIdx))"
    by (rule Stokes2cniModel_delP_pg
              [where elem = "\<lparr> elementMapper_map = 1, vertexMapper_map = [1, 2] \<rparr>"])
       simp_all
  moreover have "\<And>name. attached name \<lparr> vertexData = [] \<rparr> = []"
    by (simp add: attached_def)
  ultimately have "\<exists>pg delP. attached ''pg'' ?writer = [ScalarData pg]
          \<and> attached ''delP'' ?writer = [ScalarData delP]
          \<and> delP ! 1 = pg ! 1 - 100000"
    by (simp only: append_Nil) blast
  with run show ?thesis
    by (simp only: Let_def)
qed


section \<open>FlashVolumeVariables\<close>

lemmas update_parts =
  update_calls_flash_def update_calls_rest_def update_diffusion_def update_energy_def
  update_flashed_def update_solved_def update_start_def update_cTotal_def
  update_flashTolerance_def FluidState_temperature_def FluidState_assign_def
  FluidState_setTemperature_def

lemma update_porosity_throws:
  assumes "Problem_porosity (problem elemCtx) dofIdx timeIdx = Inl e"
  shows "FlashVolumeVariables_update tt this elemCtx dofIdx timeIdx
         = (update_calls_flash tt this elemCtx dofIdx timeIdx, Inl e)"
  unfolding FlashVolumeVariables_update_def update_parts
  by (simp add: assms Let_def case_prod_unfold split: option.split)

lemma update_intrinsicPermeability_throws:
  assumes "Problem_porosity (problem elemCtx) dofIdx timeIdx = Inr poro"
      and "Problem_intrinsicPermeability (problem elemCtx) dofIdx timeIdx = Inl e"
  shows "FlashVolumeVariables_update tt this elemCtx dofIdx timeIdx
         = (update_calls_flash tt this elemCtx dofIdx timeIdx @ [to_intrinsicPermeability], Inl e)"
  unfolding FlashVolumeVariables_update_def update_parts
  by (simp add: assms Let_def case_prod_unfold split: option.split)

lemma update_returns:
  assumes "Problem_porosity (problem elemCtx) dofIdx timeIdx = Inr poro"
      and "Problem_intrinsicPermeability (problem elemCtx) dofIdx timeIdx = Inr K"
  shows "FlashVolumeVariables_update tt this elemCtx dofIdx timeIdx
         = (update_calls_flash tt this elemCtx dofIdx timeIdx
              @ update_calls_rest tt this elemCtx dofIdx timeIdx,
            Inr \<lparr> bases = fst (update_diffusion tt this elemCtx dofIdx timeIdx),
                  fluidState = fst (snd (update_diffusion tt this elemCtx dofIdx timeIdx)),
                  porosity = poro, intrinsicPerm = K,
                  relativePermeability =
                    relativePermeabilities tt (relativePermeability this)
                      (Problem_materialLawParams (problem elemCtx) dofIdx timeIdx)
                      (update_flashed tt this elemCtx dofIdx timeIdx) \<rparr>)"
  unfolding FlashVolumeVariables_update_def update_parts
  by (simp add: assms Let_def case_prod_unfold split: option.split)

lemma update_calls:
  "fst (FlashVolumeVariables_update tt this elemCtx dofIdx timeIdx)
   = update_calls_flash tt this elemCtx dofIdx timeIdx
     @ (case Problem_porosity (problem elemCtx) dofIdx timeIdx of
          Inl e \<Rightarrow> []
        | Inr poro \<Rightarrow>
           (case Problem_intrinsicPermeability (problem elemCtx) dofIdx timeIdx of
              Inl e \<Rightarrow> [to_intrinsicPermeability]
            | Inr K \<Rightarrow> update_calls_rest tt this elemCtx dofIdx timeIdx))"
  by (auto simp: update_porosity_throws update_intrinsicPermeability_throws update_returns
            split: sum.split)

lemma setViscosities_keeps:
  "moleFraction (setViscosities tt pc phases fs) = moleFraction fs"
  "temperature (setViscosities tt pc phases fs) = temperature fs"
  by (induction phases arbitrary: fs) (simp_all add: FluidState_setViscosity_def)

lemma filter_viscosity_calls:
  "filter is_solve (map to_viscosity phases) = []"
  "filter is_relativePermeabilities (map to_viscosity phases) = []"
  by (induction phases) simp_all

lemma filter_update_calls:
  "filter is_solve (fst (FlashVolumeVariables_update tt this elemCtx dofIdx timeIdx))
   = [to_solve (fst (update_start tt this elemCtx dofIdx timeIdx))
        (snd (update_start tt this elemCtx dofIdx timeIdx))
        (Problem_materialLawParams (problem elemCtx) dofIdx timeIdx)
        (update_cTotal tt elemCtx dofIdx timeIdx) (update_flashTolerance tt elemCtx)]"
  "filter is_relativePermeabilities
     (fst (FlashVolumeVariables_update tt this elemCtx dofIdx timeIdx))
   = [to_relativePermeabilities (Problem_materialLawParams (problem elemCtx) dofIdx timeIdx)
        (update_flashed tt this elemCtx dofIdx timeIdx)]"
  by (simp_all add: update_calls update_calls_flash_def update_calls_rest_def
                    filter_viscosity_calls split: option.split sum.split)

text \<open>
  C1. In every call of \<open>update\<close> there is exactly one call of \<open>FlashSolver::solve\<close>,
  and its arguments are the material-law parameters of the problem, the total molar
  densities \<open>priVars[cTot0Idx + compIdx]\<close> for \<open>compIdx\<close> from 0 to
  \<open>numComponents - 1\<close>, and the flash tolerance. \<open>update\<close> computes no composition of
  its own: the composition it hands to the solver is the one of the hint or of
  \<open>FlashSolver::guessInitial\<close>, and the composition it hands on to the material law
  is the one the solver returned.
\<close>

theorem FlashVolumeVariables_update_delegates_flash:
  "\<exists>fs paramCache fs'.
     filter is_solve (fst (FlashVolumeVariables_update tt this elemCtx dofIdx timeIdx))
       = [to_solve fs paramCache
            (Problem_materialLawParams (problem elemCtx) dofIdx timeIdx)
            (map (\<lambda>compIdx. primaryVars elemCtx dofIdx timeIdx ! (cTot0Idx tt + compIdx))
               [0..<NumComponents tt])
            (if FlashTolerance tt \<le> 0 then baseEpsilon elemCtx / (100 * (18 / 1000))
             else FlashTolerance tt)]
   \<and> filter is_relativePermeabilities
         (fst (FlashVolumeVariables_update tt this elemCtx dofIdx timeIdx))
       = [to_relativePermeabilities
            (Problem_materialLawParams (problem elemCtx) dofIdx timeIdx) fs']
   \<and> moleFraction fs
       = (case thermodynamicHint elemCtx dofIdx timeIdx of
            Some hint \<Rightarrow> moleFraction hint
          | None \<Rightarrow>
              moleFraction (fst (guessInitial tt
                (updateTemperatures tt (fluidState this) elemCtx dofIdx timeIdx)
                (ParameterCache_default tt)
                (map (\<lambda>compIdx. primaryVars elemCtx dofIdx timeIdx ! (cTot0Idx tt + compIdx))
                   [0..<NumComponents tt]))))
   \<and> moleFraction fs'
       = moleFraction (fst (solve tt fs paramCache
            (Problem_materialLawParams (problem elemCtx) dofIdx timeIdx)
            (map (\<lambda>compIdx. primaryVars elemCtx dofIdx timeIdx ! (cTot0Idx tt + compIdx))
               [0..<NumComponents tt])
            (if FlashTolerance tt \<le> 0 then baseEpsilon elemCtx / (100 * (18 / 1000))
             else FlashTolerance tt)))"
proof -
  have "moleFraction (update_flashed tt this elemCtx dofIdx timeIdx)
        = moleFraction (fst (update_solved tt this elemCtx dofIdx timeIdx))"
    by (simp add: update_flashed_def setViscosities_keeps)
  moreover have "moleFraction (fst (update_start tt this elemCtx dofIdx timeIdx))
        = (case thermodynamicHint elemCtx dofIdx timeIdx of
             Some hint \<Rightarrow> moleFraction hint
           | None \<Rightarrow>
               moleFraction (fst (guessInitial tt
                 (updateTemperatures tt (fluidState this) elemCtx dofIdx timeIdx)
                 (ParameterCache_default tt) (update_cTotal tt elemCtx dofIdx timeIdx))))"
    by (simp add: update_start_def split: option.split)
  ultimately show ?thesis
    unfolding filter_update_calls
    unfolding update_solved_def update_cTotal_def update_flashTolerance_def
    by blast
qed

lemma firstIndex_append:
  "firstIndex P (xs @ ys)
   = (case firstIndex P xs of
        Some i \<Rightarrow> Some i
      | None \<Rightarrow> (case firstIndex P ys of None \<Rightarrow> None | Some j \<Rightarrow> Some (length xs + j)))"
  by (induction xs) (auto split: option.split)

lemma firstIndex_viscosity_calls:
  "firstIndex is_solve (map to_viscosity phases) = None"
  "firstIndex is_relativePermeabilities (map to_viscosity phases) = None"
  "firstIndex is_EnergyVolumeVariables_update (map to_viscosity phases) = None"
  "firstIndex is_DiffusionVolumeVariables_update (map to_viscosity phases) = None"
  by (induction phases) simp_all

lemmas example_defs =
  example_FlashTypes_def example_FluidState_def example_ElementContext_def
  example_FlashVolumeVariables_def

text \<open>
  C2 (as amended). In a call of \<open>update\<close> that returns, the flash solve comes first,
  then the relative permeabilities, then the energy update, then the diffusion update.
\<close>

theorem FlashVolumeVariables_update_order:
  assumes "snd (FlashVolumeVariables_update tt this elemCtx dofIdx timeIdx) = Inr this'"
  shows "calledBefore is_solve is_relativePermeabilities
           (fst (FlashVolumeVariables_update tt this elemCtx dofIdx timeIdx))
       \<and> calledBefore is_relativePermeabilities is_EnergyVolumeVariables_update
           (fst (FlashVolumeVariables_update tt this elemCtx dofIdx timeIdx))
       \<and> calledBefore is_EnergyVolumeVariables_update is_DiffusionVolumeVariables_update
           (fst (FlashVolumeVariables_update tt this elemCtx dofIdx timeIdx))"
proof -
  obtain poro where poro: "Problem_porosity (problem elemCtx) dofIdx timeIdx = Inr poro"
    using assms update_porosity_throws [of elemCtx dofIdx timeIdx _ tt this]
    by (cases "Problem_porosity (problem elemCtx) dofIdx timeIdx") auto
  obtain K where K: "Problem_intrinsicPermeability (problem elemCtx) dofIdx timeIdx = Inr K"
    using assms update_intrinsicPermeability_throws [OF poro, of _ tt this]
    by (cases "Problem_intrinsicPermeability (problem elemCtx) dofIdx timeIdx") auto
  show ?thesis
    by (simp add: update_returns [OF poro K] update_calls_flash_def update_calls_rest_def
                  calledBefore_def firstIndex_append firstIndex_viscosity_calls
             split: option.split)
qed

text \<open>
  C2 as stated (flash solve, energy update, diffusion update, relative permeabilities)
  fails: the relative permeabilities are computed before the energy update.
\<close>

theorem FlashVolumeVariables_update_order_of_the_claim_fails:
  "map callee (fst (FlashVolumeVariables_update example_FlashTypes example_FlashVolumeVariables
      (example_ElementContext None) 0 0))
   = [''ParentType::update'', ''EnergyVolumeVariables::updateTemperatures_'',
      ''FlashSolver::guessInitial'', ''problem.materialLawParams'', ''FlashSolver::solve'',
      ''FluidSystem::viscosity'', ''FluidSystem::viscosity'',
      ''MaterialLaw::relativePermeabilities'', ''problem.porosity'',
      ''problem.intrinsicPermeability'', ''VelocityVolumeVariables::update_'',
      ''EnergyVolumeVariables::update_'', ''DiffusionVolumeVariables::update_'']
   \<and> \<not> (calledBefore is_solve is_EnergyVolumeVariables_update
          (fst (FlashVolumeVariables_update example_FlashTypes example_FlashVolumeVariables
                  (example_ElementContext None) 0 0))
      \<and> calledBefore is_EnergyVolumeVariables_update is_DiffusionVolumeVariables_update
          (fst (FlashVolumeVariables_update example_FlashTypes example_FlashVolumeVariables
                  (example_ElementContext None) 0 0))
      \<and> calledBefore is_DiffusionVolumeVariables_update is_relativePermeabilities
          (fst (FlashVolumeVariables_update example_FlashTypes example_FlashVolumeVariables
                  (example_ElementContext None) 0 0)))"
  by (simp add: FlashVolumeVariables_update_def example_defs Let_def upt_rec calledBefore_def)

theorem FlashVolumeVariables_update_order_witness:
  "calledBefore is_solve is_relativePermeabilities
     (fst (FlashVolumeVariables_update example_FlashTypes example_FlashVolumeVariables
             (example_ElementContext None) 0 0))
   \<and> calledBefore is_relativePermeabilities is_EnergyVolumeVariables_update
     (fst (FlashVolumeVariables_update example_FlashTypes example_FlashVolumeVariables
             (example_ElementContext None) 0 0))
   \<and> calledBefore is_EnergyVolumeVariables_update is_DiffusionVolumeVariables_update
     (fst (FlashVolumeVariables_update example_FlashTypes example_FlashVolumeVariables
             (example_ElementContext None) 0 0))"
proof -
  obtain this' where
    "snd (FlashVolumeVariables_update example_FlashTypes example_FlashVolumeVariables
            (example_ElementContext None) 0 0) = Inr this'"
    by (simp add: FlashVolumeVariables_update_def example_defs Let_def)
  then show ?thesis
    by (rule FlashVolumeVariables_update_order)
qed




lemma access_unchanged:
  "snd (FlashVolumeVariables_access this a) = this"
  by (cases a) (simp_all split: option.split)

lemma accesses_unchanged:
  "FlashVolumeVariables_accesses this as
   = (map (\<lambda>a. fst (FlashVolumeVariables_access this a)) as, this)"
proof (induction as)
  case Nil
  show ?case by simp
next
  case (Cons a as)
  show ?case
    by (simp add: case_prod_unfold Let_def access_unchanged Cons.IH)
qed

text \<open>
  C4. \<open>fluidState()\<close> returns the fluid state stored in the object. No call of
  \<open>fluidState\<close>, \<open>intrinsicPermeability\<close>, \<open>relativePermeability\<close>, \<open>mobility\<close> or
  \<open>porosity\<close> changes the object, so after any sequence of such calls the object and
  its fluid state are what they were, and each call returned what it returns on the
  object as \<open>update\<close> left it.
\<close>

theorem FlashVolumeVariables_accessors_frame:
  "fst (FlashVolumeVariables_access this get_fluidState) = the_FluidState (fluidState this)
   \<and> snd (FlashVolumeVariables_access this a) = this
   \<and> snd (FlashVolumeVariables_accesses this as) = this
   \<and> fst (FlashVolumeVariables_accesses this as)
       = map (\<lambda>a. fst (FlashVolumeVariables_access this a)) as
   \<and> FlashVolumeVariables_fluidState (snd (FlashVolumeVariables_accesses this as))
       = fluidState this"
  by (simp add: access_unchanged accesses_unchanged FlashVolumeVariables_fluidState_def)

lemma example_accesses:
  "FlashVolumeVariables_accesses
     \<lparr> bases = (), fluidState = example_FluidState 300, porosity = 0.3, intrinsicPerm = [[1]],
       relativePermeability = [1 / 2, 0] \<rparr>
     [get_porosity, get_relativePermeability 0, get_relativePermeability 2, get_intrinsicPermeability]
   = ([the_Scalar 0.3, the_Scalar (1 / 2), outside_the_array, the_DimMatrix [[1]]],
      \<lparr> bases = (), fluidState = example_FluidState 300, porosity = 0.3, intrinsicPerm = [[1]],
        relativePermeability = [1 / 2, 0] \<rparr>)"
  by (simp add: FlashVolumeVariables_relativePermeability_def FlashVolumeVariables_porosity_def
                FlashVolumeVariables_intrinsicPermeability_def)

end
